theory Spec2Isabelle
  imports
    Main
    "HOL-Library.Word"
    "HOL-Library.Char_ord"
    "HOL-Library.List_Lexorder"
begin

unbundle bit_operations_syntax

section \<open>JavaScript values\<close>

text \<open>
  The repository holds two Express applications: the current one (the file with the
  dashboard, \<open>isValidShop\<close>, the hex-comparing \<open>verifyHmac\<close> and the CSV export) and
  the earlier \<open>server.js\<close>. Both are embedded; the definitions taken from \<open>server.js\<close>
  carry the prefix \<open>server_\<close>.

  A JavaScript string is represented by its UTF-8 encoding, one \<^typ>\<open>char\<close> per byte:
  this is what \<open>Buffer.from(s, "utf8")\<close>, \<open>createHmac(...).update(s)\<close> and
  \<open>encodeURIComponent\<close> see, and equality of strings is equality of the encodings.
  Comparison of strings by \<open>Array.prototype.sort\<close> is comparison of UTF-16 code units,
  which agrees with the bytewise order on all strings without characters outside the
  Basic Multilingual Plane.

  Values parsed from JSON, read from cookies or produced by property reads are
  \<open>jsval\<close>; JSON numbers are modelled by the integers (identifiers and counts). An
  object is the list of its own enumerable properties in enumeration order.
  Values of \<open>req.query\<close> are \<open>qval\<close>: the query parser yields strings, arrays and
  nested objects only.
\<close>

datatype jsval =
    JUndefined
  | JNull
  | JBool bool
  | JNum int
  | JStr string
  | JArr "jsval list"
  | JObj "(string \<times> jsval) list"

datatype qval =
    QStr string
  | QArr "qval list"
  | QObj "(string \<times> qval) list"

datatype js_error =
    TypeError string
  | RangeError string
  | SyntaxError string

type_synonym byte = "8 word"

text \<open>\<open>Array.prototype.join\<close> on an array of strings.\<close>

fun join :: "string \<Rightarrow> string list \<Rightarrow> string" where
  "join sep [] = []"
| "join sep [x] = x"
| "join sep (x # y # r) = x @ sep @ join sep (y # r)"

text \<open>
  Running a callback that may throw over an array (\<open>Array.prototype.map\<close>): the first
  throw ends the loop.
\<close>

fun collect :: "(js_error + 'b) list \<Rightarrow> js_error + 'b list" where
  "collect [] = Inr []"
| "collect (r # rs) =
     (case r of
        Inl e \<Rightarrow> Inl e
      | Inr y \<Rightarrow> (case collect rs of Inl e \<Rightarrow> Inl e | Inr ys \<Rightarrow> Inr (y # ys)))"

definition map_err :: "('a \<Rightarrow> js_error + 'b) \<Rightarrow> 'a list \<Rightarrow> js_error + 'b list" where
  "map_err f xs = collect (map f xs)"

fun digits10 :: "nat \<Rightarrow> string" where
  "digits10 n =
     (if n < 10 then [char_of (48 + n)]
      else digits10 (n div 10) @ [char_of (48 + n mod 10)])"

declare digits10.simps [simp del]

definition show_int :: "int \<Rightarrow> string" where
  "show_int i = (if i < 0 then CHR ''-'' # digits10 (nat (- i)) else digits10 (nat i))"

text \<open>Truthiness (\<open>!v\<close>, \<open>v || d\<close>, \<open>filter(Boolean)\<close>).\<close>

fun truthy :: "jsval \<Rightarrow> bool" where
  "truthy JUndefined = False"
| "truthy JNull = False"
| "truthy (JBool b) = b"
| "truthy (JNum n) = (n \<noteq> 0)"
| "truthy (JStr s) = (s \<noteq> [])"
| "truthy (JArr _) = True"
| "truthy (JObj _) = True"

text \<open>A query parameter is \<open>undefined\<close> when absent.\<close>

fun qv_truthy :: "qval \<Rightarrow> bool" where
  "qv_truthy (QStr s) = (s \<noteq> [])"
| "qv_truthy (QArr _) = True"
| "qv_truthy (QObj _) = True"

definition q_truthy :: "qval option \<Rightarrow> bool" where
  "q_truthy v = (case v of None \<Rightarrow> False | Some x \<Rightarrow> qv_truthy x)"

text \<open>
  \<open>String(v)\<close>, \<open>`${v}`\<close> and \<open>v.toString()\<close> on a query value. The query parser
  never creates an own property named \<open>toString\<close>, so the conversion of an object is
  \<open>[object Object]\<close>.
\<close>

fun q_toString :: "qval \<Rightarrow> string" where
  "q_toString (QStr s) = s"
| "q_toString (QArr xs) = join '','' (map q_toString xs)"
| "q_toString (QObj _) = ''[object Object]''"

definition q_template :: "qval option \<Rightarrow> string" where
  "q_template v = (case v of None \<Rightarrow> ''undefined'' | Some x \<Rightarrow> q_toString x)"

text \<open>
  \<open>String(v)\<close> on a JSON value. An element of an array that is \<open>null\<close> or
  \<open>undefined\<close> is joined as the empty string. An object parsed from JSON whose own
  property \<open>toString\<close> shadows the inherited method cannot be converted: \<open>TypeError\<close>.
\<close>

fun js_toString :: "jsval \<Rightarrow> js_error + string" where
  "js_toString JUndefined = Inr ''undefined''"
| "js_toString JNull = Inr ''null''"
| "js_toString (JBool b) = Inr (if b then ''true'' else ''false'')"
| "js_toString (JNum n) = Inr (show_int n)"
| "js_toString (JStr s) = Inr s"
| "js_toString (JArr xs) =
     (case collect (map (\<lambda>x. case x of JUndefined \<Rightarrow> Inr [] | JNull \<Rightarrow> Inr [] | _ \<Rightarrow> js_toString x) xs) of
        Inl e \<Rightarrow> Inl e
      | Inr ss \<Rightarrow> Inr (join '','' ss))"
| "js_toString (JObj ps) =
     (if ''toString'' \<in> fst ` set ps
      then Inl (TypeError ''Cannot convert object to primitive value'')
      else Inr ''[object Object]'')"

text \<open>
  Property reads \<open>v.k\<close> and \<open>v?.k\<close>, for the keys this program reads (none of them
  is a member of a built-in prototype).
\<close>

definition lookup :: "(string \<times> 'a) list \<Rightarrow> string \<Rightarrow> 'a option" where
  "lookup ps k = map_of ps k"

definition own_prop :: "(string \<times> jsval) list \<Rightarrow> string \<Rightarrow> jsval" where
  "own_prop ps k = (case map_of ps k of None \<Rightarrow> JUndefined | Some v \<Rightarrow> v)"

fun get_prop :: "jsval \<Rightarrow> string \<Rightarrow> js_error + jsval" where
  "get_prop JUndefined k =
     Inl (TypeError (''Cannot read properties of undefined (reading '' @ [CHR 0x27] @ k @ [CHR 0x27] @ '')''))"
| "get_prop JNull k =
     Inl (TypeError (''Cannot read properties of null (reading '' @ [CHR 0x27] @ k @ [CHR 0x27] @ '')''))"
| "get_prop (JObj ps) k = Inr (own_prop ps k)"
| "get_prop _ k = Inr JUndefined"

fun get_prop_opt :: "jsval \<Rightarrow> string \<Rightarrow> jsval" where
  "get_prop_opt (JObj ps) k = own_prop ps k"
| "get_prop_opt _ k = JUndefined"

section \<open>Node's \<open>crypto\<close> and \<open>Buffer\<close>\<close>

text \<open>
  \<open>crypto.createHmac("sha256", key).update(message).digest("hex")\<close>: HMAC (RFC 2104)
  over SHA-256 (FIPS 180-4) of the UTF-8 bytes, rendered in lower-case hexadecimal. The
  round constants and the initial hash value are written in decimal.
\<close>

type_synonym w32 = "32 word"

type_synonym sha_state = "w32 \<times> w32 \<times> w32 \<times> w32 \<times> w32 \<times> w32 \<times> w32 \<times> w32"

definition rotr :: "nat \<Rightarrow> w32 \<Rightarrow> w32" where
  "rotr n x = drop_bit n x OR push_bit (32 - n) x"

definition Ch :: "w32 \<Rightarrow> w32 \<Rightarrow> w32 \<Rightarrow> w32" where
  "Ch x y z = (x AND y) XOR (NOT x AND z)"

definition Maj :: "w32 \<Rightarrow> w32 \<Rightarrow> w32 \<Rightarrow> w32" where
  "Maj x y z = (x AND y) XOR (x AND z) XOR (y AND z)"

definition bsig0 :: "w32 \<Rightarrow> w32" where
  "bsig0 x = rotr 2 x XOR rotr 13 x XOR rotr 22 x"

definition bsig1 :: "w32 \<Rightarrow> w32" where
  "bsig1 x = rotr 6 x XOR rotr 11 x XOR rotr 25 x"

definition ssig0 :: "w32 \<Rightarrow> w32" where
  "ssig0 x = rotr 7 x XOR rotr 18 x XOR drop_bit 3 x"

definition ssig1 :: "w32 \<Rightarrow> w32" where
  "ssig1 x = rotr 17 x XOR rotr 19 x XOR drop_bit 10 x"

definition K256 :: "w32 list" where
  "K256 = [
   1116352408, 1899447441, 3049323471, 3921009573, 961987163, 1508970993, 2453635748, 2870763221,
   3624381080, 310598401, 607225278, 1426881987, 1925078388, 2162078206, 2614888103, 3248222580,
   3835390401, 4022224774, 264347078, 604807628, 770255983, 1249150122, 1555081692, 1996064986,
   2554220882, 2821834349, 2952996808, 3210313671, 3336571891, 3584528711, 113926993, 338241895,
   666307205, 773529912, 1294757372, 1396182291, 1695183700, 1986661051, 2177026350, 2456956037,
   2730485921, 2820302411, 3259730800, 3345764771, 3516065817, 3600352804, 4094571909, 275423344,
   430227734, 506948616, 659060556, 883997877, 958139571, 1322822218, 1537002063, 1747873779,
   1955562222, 2024104815, 2227730452, 2361852424, 2428436474, 2756734187, 3204031479, 3329325298]"

definition H256 :: sha_state where
  "H256 = (1779033703, 3144134277, 1013904242, 2773480762,
           1359893119, 2600822924, 528734635, 1541459225)"

definition be32 :: "byte \<Rightarrow> byte \<Rightarrow> byte \<Rightarrow> byte \<Rightarrow> w32" where
  "be32 a b c d = push_bit 24 (ucast a) OR push_bit 16 (ucast b) OR push_bit 8 (ucast c) OR ucast d"

fun words_of :: "byte list \<Rightarrow> w32 list" where
  "words_of (a # b # c # d # r) = be32 a b c d # words_of r"
| "words_of _ = []"

definition bytes_of :: "w32 \<Rightarrow> byte list" where
  "bytes_of w = [ucast (drop_bit 24 w), ucast (drop_bit 16 w), ucast (drop_bit 8 w), ucast w]"

definition len64 :: "nat \<Rightarrow> byte list" where
  "len64 n =
     (let w = (of_nat n :: 64 word)
      in [ucast (drop_bit 56 w), ucast (drop_bit 48 w), ucast (drop_bit 40 w), ucast (drop_bit 32 w),
          ucast (drop_bit 24 w), ucast (drop_bit 16 w), ucast (drop_bit 8 w), ucast w])"

definition pad :: "byte list \<Rightarrow> byte list" where
  "pad m = m @ [0x80] @ replicate ((55 + 64 - length m mod 64) mod 64) 0 @ len64 (8 * length m)"

text \<open>The message schedule, most recent word first.\<close>

fun schedule :: "nat \<Rightarrow> w32 list \<Rightarrow> w32 list" where
  "schedule 0 w = rev w"
| "schedule (Suc n) w =
     schedule n ((ssig1 (w ! 1) + w ! 6 + ssig0 (w ! 14) + w ! 15) # w)"

fun round256 :: "sha_state \<Rightarrow> w32 \<times> w32 \<Rightarrow> sha_state" where
  "round256 (a, b, c, d, e, f, g, h) (k, w) =
     (let t1 = h + bsig1 e + Ch e f g + k + w;
          t2 = bsig0 a + Maj a b c
      in (t1 + t2, a, b, c, d + t1, e, f, g))"

fun add_state :: "sha_state \<Rightarrow> sha_state \<Rightarrow> sha_state" where
  "add_state (a, b, c, d, e, f, g, h) (a', b', c', d', e', f', g', h') =
     (a + a', b + b', c + c', d + d', e + e', f + f', g + g', h + h')"

definition compress :: "sha_state \<Rightarrow> byte list \<Rightarrow> sha_state" where
  "compress h blk =
     add_state h (foldl round256 h (zip K256 (schedule 48 (rev (words_of blk)))))"

fun blocks :: "nat \<Rightarrow> byte list \<Rightarrow> byte list list" where
  "blocks 0 m = []"
| "blocks (Suc n) m = take 64 m # blocks n (drop 64 m)"

fun state_bytes :: "sha_state \<Rightarrow> byte list" where
  "state_bytes (a, b, c, d, e, f, g, h) =
     bytes_of a @ bytes_of b @ bytes_of c @ bytes_of d @
     bytes_of e @ bytes_of f @ bytes_of g @ bytes_of h"

definition sha256 :: "byte list \<Rightarrow> byte list" where
  "sha256 m = (let p = pad m in state_bytes (foldl compress H256 (blocks (length p div 64) p)))"

definition hmac_sha256 :: "byte list \<Rightarrow> byte list \<Rightarrow> byte list" where
  "hmac_sha256 key m =
     (let k0 = (if length key > 64 then sha256 key else key);
          k = k0 @ replicate (64 - length k0) 0
      in sha256 (map (\<lambda>b. b XOR 0x5c) k @ sha256 (map (\<lambda>b. b XOR 0x36) k @ m)))"

text \<open>\<open>Buffer.from(s, "utf8")\<close>: the bytes of the string.\<close>

definition utf8_bytes :: "string \<Rightarrow> byte list" where
  "utf8_bytes s = map (\<lambda>c. of_nat (of_char c)) s"

definition hex_digit :: "nat \<Rightarrow> char" where
  "hex_digit n = (if n < 10 then char_of (48 + n) else char_of (87 + n))"

definition hex_encode :: "byte list \<Rightarrow> string" where
  "hex_encode bs = concat (map (\<lambda>b. [hex_digit (unat b div 16), hex_digit (unat b mod 16)]) bs)"

definition unhex :: "char \<Rightarrow> nat option" where
  "unhex c =
     (let n = (of_char c :: nat)
      in if 48 \<le> n \<and> n \<le> 57 then Some (n - 48)
         else if 97 \<le> n \<and> n \<le> 102 then Some (n - 87)
         else if 65 \<le> n \<and> n \<le> 70 then Some (n - 55)
         else None)"

text \<open>
  \<open>Buffer.from(s, "hex")\<close> decodes pairs of hexadecimal digits and stops, without an
  error, at the first pair that is not one; a last unpaired character is dropped.
\<close>

fun hex_decode :: "string \<Rightarrow> byte list" where
  "hex_decode (a # b # r) =
     (case unhex a of
        None \<Rightarrow> []
      | Some x \<Rightarrow> (case unhex b of None \<Rightarrow> [] | Some y \<Rightarrow> of_nat (16 * x + y) # hex_decode r))"
| "hex_decode _ = []"

text \<open>\<open>crypto.timingSafeEqual\<close> throws on buffers of different lengths.\<close>

definition timingSafeEqual :: "byte list \<Rightarrow> byte list \<Rightarrow> js_error + bool" where
  "timingSafeEqual a b =
     (if length a \<noteq> length b
      then Inl (RangeError ''Input buffers must have the same byte length'')
      else Inr (a = b))"

text \<open>
  The configuration, read from \<open>process.env\<close> when the process starts; a variable that
  is not set is \<open>undefined\<close>. \<open>createHmac\<close> throws on an \<open>undefined\<close> key.
\<close>

record env =
  SHOPIFY_API_KEY :: "string option"
  SHOPIFY_API_SECRET :: "string option"
  SHOPIFY_SCOPES :: "string option"
  SHOPIFY_APP_URL :: "string option"

definition createHmac_sha256_hex :: "string option \<Rightarrow> string \<Rightarrow> js_error + string" where
  "createHmac_sha256_hex key message =
     (case key of
        None \<Rightarrow> Inl (TypeError ''The key argument must be of type string. Received undefined'')
      | Some k \<Rightarrow> Inr (hex_encode (hmac_sha256 (utf8_bytes k) (utf8_bytes message))))"

section \<open>Signature verification\<close>

text \<open>
  The \<open>message\<close> of \<open>verifyHmac\<close>: the keys of \<open>rest\<close> (the query without \<open>hmac\<close>
  and \<open>signature\<close>) sorted, each rendered as \<open>key=value\<close>, joined with \<open>&\<close>.
\<close>

definition message_pair :: "(string \<times> qval) list \<Rightarrow> string \<Rightarrow> string" where
  "message_pair rest key =
     (case lookup rest key of
        Some (QArr xs) \<Rightarrow> key @ ''='' @ join '','' (map q_toString xs)
      | val \<Rightarrow> key @ ''='' @ q_template val)"

definition canonical_message :: "(string \<times> qval) list \<Rightarrow> string" where
  "canonical_message query =
     (let rest = filter (\<lambda>(k, v). k \<noteq> ''hmac'' \<and> k \<noteq> ''signature'') query
      in join ''&'' (map (message_pair rest) (sort (map fst rest))))"

definition verifyHmac :: "env \<Rightarrow> (string \<times> qval) list \<Rightarrow> js_error + bool" where
  "verifyHmac env query =
     (let hmac = lookup query ''hmac''
      in if \<not> q_truthy hmac then Inr False
         else case createHmac_sha256_hex (SHOPIFY_API_SECRET env) (canonical_message query) of
                Inl e \<Rightarrow> Inl e
              | Inr generated \<Rightarrow>
                  (let a = hex_decode generated;
                       b = hex_decode (q_template hmac)
                   in if length a \<noteq> length b then Inr False else timingSafeEqual a b))"

text \<open>
  \<open>verifyHmac\<close> of \<open>server.js\<close>: only \<open>hmac\<close> is taken out of the query, and the
  hexadecimal digest is compared as text with the \<open>hmac\<close> parameter, with no guard in
  front of \<open>Buffer.from\<close> and \<open>timingSafeEqual\<close>. What \<open>Buffer.from\<close> builds from
  an array or an object depends on the conversion of its elements to numbers and is the
  parameter \<open>from_object\<close>.
\<close>

definition server_canonical_message :: "(string \<times> qval) list \<Rightarrow> string" where
  "server_canonical_message query =
     (let rest = filter (\<lambda>(k, v). k \<noteq> ''hmac'') query
      in join ''&'' (map (message_pair rest) (sort (map fst rest))))"

definition Buffer_from_utf8 :: "(qval \<Rightarrow> js_error + byte list) \<Rightarrow> qval option \<Rightarrow> js_error + byte list" where
  "Buffer_from_utf8 from_object v =
     (case v of
        None \<Rightarrow> Inl (TypeError ''The first argument must be of type string or an instance of Buffer. Received undefined'')
      | Some (QStr s) \<Rightarrow> Inr (utf8_bytes s)
      | Some x \<Rightarrow> from_object x)"

definition server_verifyHmac ::
  "(qval \<Rightarrow> js_error + byte list) \<Rightarrow> env \<Rightarrow> (string \<times> qval) list \<Rightarrow> js_error + bool" where
  "server_verifyHmac from_object env query =
     (let hmac = lookup query ''hmac''
      in case createHmac_sha256_hex (SHOPIFY_API_SECRET env) (server_canonical_message query) of
           Inl e \<Rightarrow> Inl e
         | Inr generated \<Rightarrow>
             (case Buffer_from_utf8 from_object hmac of
                Inl e \<Rightarrow> Inl e
              | Inr b \<Rightarrow> timingSafeEqual (utf8_bytes generated) b))"

section \<open>Strings: \<open>trim\<close>, the shop pattern, \<open>encodeURIComponent\<close>, \<open>JSON.stringify\<close>\<close>

text \<open>
  \<open>String.prototype.trim\<close> removes white space and line terminators from both ends:
  U+0009 to U+000D, U+0020, U+00A0, U+1680, U+2000 to U+200A, U+2028, U+2029, U+202F,
  U+205F, U+3000 and U+FEFF, here in their UTF-8 encodings.
\<close>

definition js_whitespace :: "string list" where
  "js_whitespace =
     map (\<lambda>n. [char_of n]) [9, 10, 11, 12, 13, 32 :: nat] @
     [[CHR 0xC2, CHR 0xA0], [CHR 0xE1, CHR 0x9A, CHR 0x80]] @
     map (\<lambda>n. [CHR 0xE2, CHR 0x80, char_of n]) [0x80 ..< 0x8B :: nat] @
     [[CHR 0xE2, CHR 0x80, CHR 0xA8], [CHR 0xE2, CHR 0x80, CHR 0xA9],
      [CHR 0xE2, CHR 0x80, CHR 0xAF], [CHR 0xE2, CHR 0x81, CHR 0x9F],
      [CHR 0xE3, CHR 0x80, CHR 0x80], [CHR 0xEF, CHR 0xBB, CHR 0xBF]]"

function strip_start :: "string list \<Rightarrow> string \<Rightarrow> string" where
  "strip_start ws s =
     (case find (\<lambda>w. w \<noteq> [] \<and> take (length w) s = w) ws of
        None \<Rightarrow> s
      | Some w \<Rightarrow> strip_start ws (drop (length w) s))"
  by pat_completeness auto

termination
proof (relation "measure (\<lambda>(ws, s). length s)")
  show "wf (measure (\<lambda>(ws, s). length s))" by simp
next
  fix ws :: "string list" and s w :: string
  assume "find (\<lambda>w. w \<noteq> [] \<and> take (length w) s = w) ws = Some w"
  then have w: "w \<noteq> []" "take (length w) s = w"
    by (auto simp: find_Some_iff)
  from w(2) have "min (length s) (length w) = length w"
    by (metis length_take)
  then have "length w \<le> length s"
    by simp
  with w(1) show "((ws, drop (length w) s), (ws, s)) \<in> measure (\<lambda>(ws, s). length s)"
    by (cases w) auto
qed

declare strip_start.simps [simp del]

definition trim :: "string \<Rightarrow> string" where
  "trim s = rev (strip_start (map rev js_whitespace) (rev (strip_start js_whitespace s)))"

definition is_alnum :: "char \<Rightarrow> bool" where
  "is_alnum c =
     (let n = (of_char c :: nat)
      in (48 \<le> n \<and> n \<le> 57) \<or> (65 \<le> n \<and> n \<le> 90) \<or> (97 \<le> n \<and> n \<le> 122))"

text \<open>
  The test of \<open>/^[a-zA-Z0-9][a-zA-Z0-9\-]*\.myshopify\.com$/\<close>: the last fourteen
  characters are \<open>.myshopify.com\<close>, and what stands before them is a letter or digit
  followed by letters, digits and hyphens.
\<close>

definition shop_regex_test :: "string \<Rightarrow> bool" where
  "shop_regex_test s =
     (drop (length s - 14) s = ''.myshopify.com'' \<and>
      (case take (length s - 14) s of
         [] \<Rightarrow> False
       | c # cs \<Rightarrow> is_alnum c \<and> list_all (\<lambda>d. is_alnum d \<or> d = CHR ''-'') cs))"

definition isValidShop :: "jsval \<Rightarrow> bool" where
  "isValidShop shop = (case shop of JStr s \<Rightarrow> shop_regex_test s | _ \<Rightarrow> False)"

definition HEX_digit :: "nat \<Rightarrow> char" where
  "HEX_digit n = (if n < 10 then char_of (48 + n) else char_of (55 + n))"

definition uri_unreserved :: "char \<Rightarrow> bool" where
  "uri_unreserved c = (is_alnum c \<or> c \<in> set ''-_.!~*()'' \<or> c = CHR 0x27)"

definition encodeURIComponent :: "string \<Rightarrow> string" where
  "encodeURIComponent s =
     concat (map (\<lambda>c. if uri_unreserved c then [c]
                       else [CHR ''%'', HEX_digit (of_char c div 16), HEX_digit (of_char c mod 16)]) s)"

definition json_escape_char :: "char \<Rightarrow> string" where
  "json_escape_char c =
     (let n = (of_char c :: nat)
      in if n = 0x22 then [CHR 0x5C, CHR 0x22]
         else if n = 0x5C then [CHR 0x5C, CHR 0x5C]
         else if n = 8 then [CHR 0x5C, CHR ''b'']
         else if n = 12 then [CHR 0x5C, CHR ''f'']
         else if n = 10 then [CHR 0x5C, CHR ''n'']
         else if n = 13 then [CHR 0x5C, CHR ''r'']
         else if n = 9 then [CHR 0x5C, CHR ''t'']
         else if n < 32 then [CHR 0x5C, CHR ''u'', CHR ''0'', CHR ''0'', hex_digit (n div 16), hex_digit (n mod 16)]
         else [c])"

definition json_quote :: "string \<Rightarrow> string" where
  "json_quote s = [CHR 0x22] @ concat (map json_escape_char s) @ [CHR 0x22]"

text \<open>
  \<open>JSON.stringify\<close>; \<open>None\<close> is the result \<open>undefined\<close>. A member whose value is
  \<open>undefined\<close> is left out of an object and written \<open>null\<close> in an array.
\<close>

fun json_stringify :: "jsval \<Rightarrow> string option" where
  "json_stringify JUndefined = None"
| "json_stringify JNull = Some ''null''"
| "json_stringify (JBool b) = Some (if b then ''true'' else ''false'')"
| "json_stringify (JNum n) = Some (show_int n)"
| "json_stringify (JStr s) = Some (json_quote s)"
| "json_stringify (JArr xs) =
     Some (''['' @ join '','' (map (\<lambda>x. case json_stringify x of None \<Rightarrow> ''null'' | Some t \<Rightarrow> t) xs) @ '']'')"
| "json_stringify (JObj ps) =
     Some (''{'' @
           join '','' (concat (map (\<lambda>p. case json_stringify (snd p) of
                                            None \<Rightarrow> []
                                          | Some t \<Rightarrow> [json_quote (fst p) @ '':'' @ t]) ps)) @
           ''}'')"

definition json_template :: "jsval \<Rightarrow> string" where
  "json_template v = (case json_stringify v of None \<Rightarrow> ''undefined'' | Some t \<Rightarrow> t)"

fun js_of_qval :: "qval \<Rightarrow> jsval" where
  "js_of_qval (QStr s) = JStr s"
| "js_of_qval (QArr xs) = JArr (map js_of_qval xs)"
| "js_of_qval (QObj ps) = JObj (map (\<lambda>p. (fst p, js_of_qval (snd p))) ps)"

definition env_template :: "string option \<Rightarrow> string" where
  "env_template v = (case v of None \<Rightarrow> ''undefined'' | Some s \<Rightarrow> s)"

definition js_of_env :: "string option \<Rightarrow> jsval" where
  "js_of_env v = (case v of None \<Rightarrow> JUndefined | Some s \<Rightarrow> JStr s)"

section \<open>Requests, replies and the world\<close>

text \<open>
  A handler is a function of the request, the store and what the world answers to the
  one \<open>fetch\<close> it may issue. It returns the effects it performed, in order, and how it
  ended: one of the \<open>res\<close> calls that finish a response, or \<open>Raised\<close> when an exception
  leaves the handler and it sends nothing. \<open>fetch\<close> also rejects on a URL or a header
  it cannot use; \<open>FetchThrows\<close> stands for every rejection.
\<close>

record request =
  query :: "(string \<times> qval) list"
  cookies :: "(string \<times> jsval) list"

record cookie_options =
  httpOnly :: bool
  secure :: "bool option"
  sameSite :: "string option"

record fetch_request =
  fetch_url :: string
  fetch_method :: string
  fetch_headers :: "(string \<times> string) list"
  fetch_body :: "string option"

datatype effect =
    SetCookie string string cookie_options
  | SetHeader string string
  | Fetch fetch_request

datatype reply =
    Send nat string
  | SendJson nat jsval
  | Redirect string
  | Raised js_error

record result =
  effects :: "effect list"
  reply :: reply

datatype fetch_result =
    FetchThrows js_error
  | FetchResponse nat "js_error + jsval"

text \<open>
  \<open>FetchResponse status body\<close>: the status line and what \<open>await r.json()\<close> gives, the
  parsed body or the error it rejects with. \<open>r.ok\<close> is a status from 200 to 299.
\<close>

definition response_ok :: "nat \<Rightarrow> bool" where
  "response_ok status = (200 \<le> status \<and> status \<le> 299)"

fun status_of :: "reply \<Rightarrow> nat option" where
  "status_of (Send n _) = Some n"
| "status_of (SendJson n _) = Some n"
| "status_of (Redirect _) = Some 302"
| "status_of (Raised _) = None"


fun is_set_cookie :: "effect \<Rightarrow> bool" where
  "is_set_cookie (SetCookie _ _ _) = True"
| "is_set_cookie _ = False"

text \<open>\<open>err?.message || String(err)\<close>.\<close>

fun error_text :: "js_error \<Rightarrow> string" where
  "error_text (TypeError m) = (if m \<noteq> [] then m else ''TypeError'')"
| "error_text (RangeError m) = (if m \<noteq> [] then m else ''RangeError'')"
| "error_text (SyntaxError m) = (if m \<noteq> [] then m else ''SyntaxError'')"

section \<open>The credential map\<close>

text \<open>
  \<open>TOKENS\<close> is a \<open>Map\<close>: its entries in insertion order. Keys are compared by
  \<open>SameValueZero\<close>: strings by their text, arrays and objects by identity. An array or
  object used as key is the one the query parser made for the request at hand, so it is
  not a key already and no later lookup finds it.
\<close>

type_synonym tokens = "(qval \<times> jsval) list"

fun alist_set :: "qval \<Rightarrow> jsval \<Rightarrow> tokens \<Rightarrow> tokens" where
  "alist_set k v [] = [(k, v)]"
| "alist_set k v (p # ps) = (if fst p = k then (k, v) # ps else p # alist_set k v ps)"

definition TOKENS_set :: "qval \<Rightarrow> jsval \<Rightarrow> tokens \<Rightarrow> tokens" where
  "TOKENS_set k v m = (case k of QStr s \<Rightarrow> alist_set k v m | _ \<Rightarrow> m @ [(k, v)])"

definition TOKENS_get :: "tokens \<Rightarrow> qval \<Rightarrow> jsval" where
  "TOKENS_get m k =
     (case k of
        QStr s \<Rightarrow> (case map_of m k of None \<Rightarrow> JUndefined | Some v \<Rightarrow> v)
      | _ \<Rightarrow> JUndefined)"


section \<open>The authorization flow\<close>

definition APP_URL :: "env \<Rightarrow> string" where
  "APP_URL env =
     (let u = (case SHOPIFY_APP_URL env of None \<Rightarrow> [] | Some s \<Rightarrow> s)
      in if u \<noteq> [] \<and> last u = CHR ''/'' then butlast u else u)"

definition IS_HTTPS :: "env \<Rightarrow> bool" where
  "IS_HTTPS env = (take 8 (APP_URL env) = ''https://'')"

definition getRedirectUri :: "env \<Rightarrow> string" where
  "getRedirectUri env = APP_URL env @ ''/auth/callback''"

definition buildInstallUrl :: "env \<Rightarrow> string \<Rightarrow> string \<Rightarrow> string" where
  "buildInstallUrl env shop state =
     ''https://'' @ shop @ ''/admin/oauth/authorize'' @
     ''?client_id='' @ env_template (SHOPIFY_API_KEY env) @
     ''&scope='' @ encodeURIComponent (env_template (SHOPIFY_SCOPES env)) @
     ''&redirect_uri='' @ encodeURIComponent (getRedirectUri env) @
     ''&state='' @ state"

text \<open>\<open>(req.query.shop || "").toString().trim()\<close>\<close>

definition shop_param :: "request \<Rightarrow> string" where
  "shop_param req =
     (let v = lookup (query req) ''shop''
      in trim (if q_truthy v then q_template v else []))"

text \<open>\<open>`${req.query.first || 5}`\<close>\<close>

definition first_param :: "request \<Rightarrow> string" where
  "first_param req =
     (let v = lookup (query req) ''first''
      in if q_truthy v then q_template v else ''5'')"

text \<open>
  \<open>GET /auth\<close>. \<open>rnd\<close> is what \<open>crypto.randomBytes(16)\<close> returns.
\<close>

definition auth_handler :: "env \<Rightarrow> request \<Rightarrow> byte list \<Rightarrow> result" where
  "auth_handler env req rnd =
     (let shop = shop_param req
      in if shop = [] then
           \<lparr>effects = [],
            reply = Send 400 ''Missing shop param. Example: /auth?shop=xxx.myshopify.com''\<rparr>
         else if \<not> isValidShop (JStr shop) then
           \<lparr>effects = [],
            reply = Send 400 ''Invalid shop domain. Must end with .myshopify.com''\<rparr>
         else
           (let state = hex_encode rnd
            in \<lparr>effects =
                  [SetCookie ''shopify_oauth_state'' state
                     \<lparr>httpOnly = True, secure = Some (IS_HTTPS env),
                      sameSite = Some (if IS_HTTPS env then ''none'' else ''lax'')\<rparr>],
                reply = Redirect (buildInstallUrl env shop state)\<rparr>))"

text \<open>
  \<open>cookieState !== state\<close>, for a cookie value and a query value that is not
  \<open>undefined\<close>: they are equal only as strings with the same text.
\<close>

fun strict_equal :: "jsval \<Rightarrow> qval \<Rightarrow> bool" where
  "strict_equal (JStr a) (QStr b) = (a = b)"
| "strict_equal _ _ = False"

definition token_request :: "env \<Rightarrow> qval \<Rightarrow> qval \<Rightarrow> fetch_request" where
  "token_request env shop code =
     \<lparr>fetch_url = ''https://'' @ q_toString shop @ ''/admin/oauth/access_token'',
      fetch_method = ''POST'',
      fetch_headers = [(''Content-Type'', ''application/json'')],
      fetch_body =
        json_stringify
          (JObj [(''client_id'', js_of_env (SHOPIFY_API_KEY env)),
                 (''client_secret'', js_of_env (SHOPIFY_API_SECRET env)),
                 (''code'', js_of_qval code)])\<rparr>"

definition callback_error :: "js_error \<Rightarrow> reply" where
  "callback_error err = Send 500 (''Callback error: '' @ error_text err)"

definition missing_callback_params :: reply where
  "missing_callback_params =
     Send 400 (''Missing shop/code/state (Don'' @ [CHR 0x27] @
               ''t open /auth/callback manually. Use Install/Auth.)'')"

text \<open>
  The exchange of \<open>GET /auth/callback\<close>, inside its \<open>try\<close> block: the \<open>POST\<close> to the
  token endpoint, \<open>TOKENS.set\<close> on a success response, and the \<open>catch\<close>.
\<close>

definition exchange :: "env \<Rightarrow> tokens \<Rightarrow> qval \<Rightarrow> qval \<Rightarrow> fetch_result \<Rightarrow> tokens \<times> result" where
  "exchange env TOKENS shop code world =
     (let call = Fetch (token_request env shop code)
      in case world of
           FetchThrows err \<Rightarrow> (TOKENS, \<lparr>effects = [call], reply = callback_error err\<rparr>)
         | FetchResponse status parsed \<Rightarrow>
             (case parsed of
                Inl err \<Rightarrow> (TOKENS, \<lparr>effects = [call], reply = callback_error err\<rparr>)
              | Inr tokenJson \<Rightarrow>
                  if \<not> response_ok status then
                    (TOKENS,
                     \<lparr>effects = [call],
                      reply = Send 500 (''Token exchange failed: '' @ json_template tokenJson)\<rparr>)
                  else
                    (case get_prop tokenJson ''access_token'' of
                       Inl err \<Rightarrow> (TOKENS, \<lparr>effects = [call], reply = callback_error err\<rparr>)
                     | Inr access_token \<Rightarrow>
                         (TOKENS_set shop access_token TOKENS,
                          \<lparr>effects = [call],
                           reply = Redirect (''/?shop='' @ encodeURIComponent (q_toString shop))\<rparr>))))"

text \<open>
  \<open>GET /auth/callback\<close>. A parameter that is absent is \<open>undefined\<close> and fails the
  first test like an empty one. \<open>verifyHmac\<close> is called outside the \<open>try\<close> block.
\<close>

definition auth_callback_handler ::
  "env \<Rightarrow> tokens \<Rightarrow> request \<Rightarrow> fetch_result \<Rightarrow> tokens \<times> result" where
  "auth_callback_handler env TOKENS req world =
     (case (lookup (query req) ''shop'', lookup (query req) ''code'', lookup (query req) ''state'') of
        (Some shop, Some code, Some state) \<Rightarrow>
          if \<not> qv_truthy shop \<or> \<not> qv_truthy code \<or> \<not> qv_truthy state then
            (TOKENS, \<lparr>effects = [], reply = missing_callback_params\<rparr>)
          else
            (let cookieState = own_prop (cookies req) ''shopify_oauth_state''
             in if \<not> truthy cookieState \<or> \<not> strict_equal cookieState state then
                  (TOKENS, \<lparr>effects = [], reply = Send 400 ''Invalid state. Try /auth again.''\<rparr>)
                else
                  (case verifyHmac env (query req) of
                     Inl err \<Rightarrow> (TOKENS, \<lparr>effects = [], reply = Raised err\<rparr>)
                   | Inr verified \<Rightarrow>
                       if \<not> verified then
                         (TOKENS, \<lparr>effects = [], reply = Send 400 ''HMAC verification failed.''\<rparr>)
                       else exchange env TOKENS shop code world))
      | _ \<Rightarrow> (TOKENS, \<lparr>effects = [], reply = missing_callback_params\<rparr>))"

section \<open>The customer endpoints\<close>

text \<open>
  \<open>formatAddresses\<close>: the default parameter replaces \<open>undefined\<close>, \<open>|| []\<close> replaces
  every other falsy value, and \<open>.map\<close> exists on arrays only.
\<close>

definition address_line :: "jsval \<Rightarrow> js_error + string" where
  "address_line a =
     (let parts =
            filter truthy
              [get_prop_opt a ''address1'', get_prop_opt a ''address2'', get_prop_opt a ''city'',
               get_prop_opt a ''province'', get_prop_opt a ''zip'', get_prop_opt a ''country'']
      in case map_err js_toString parts of
           Inl err \<Rightarrow> Inl err
         | Inr texts \<Rightarrow> Inr (join '', '' texts))"

definition formatAddresses :: "jsval \<Rightarrow> js_error + string" where
  "formatAddresses arg =
     (let addresses = (if arg = JUndefined then JArr [] else arg)
      in case (if truthy addresses then addresses else JArr []) of
           JArr as \<Rightarrow>
             (case map_err address_line as of
                Inl err \<Rightarrow> Inl err
              | Inr lines \<Rightarrow> Inr (join '' | '' lines))
         | _ \<Rightarrow> Inl (TypeError ''(addresses || []).map is not a function''))"

text \<open>
  \<open>toCSV\<close>, on the rows it is called with: objects, given by their properties.
\<close>

definition csv_escape :: "jsval \<Rightarrow> js_error + string" where
  "csv_escape val =
     (if val = JNull \<or> val = JUndefined then Inr []
      else case js_toString val of
             Inl err \<Rightarrow> Inl err
           | Inr s \<Rightarrow>
               Inr (if CHR '','' \<in> set s \<or> CHR 0x22 \<in> set s \<or> CHR 0x0A \<in> set s
                    then [CHR 0x22] @
                         concat (map (\<lambda>c. if c = CHR 0x22 then [CHR 0x22, CHR 0x22] else [c]) s) @
                         [CHR 0x22]
                    else s))"

definition toCSV :: "(string \<times> jsval) list list \<Rightarrow> js_error + string" where
  "toCSV rows =
     (case rows of
        [] \<Rightarrow> Inr []
      | row0 # _ \<Rightarrow>
          (let headers = map fst row0
           in case map_err
                     (\<lambda>row. case map_err (\<lambda>h. csv_escape (own_prop row h)) headers of
                              Inl err \<Rightarrow> Inl err
                            | Inr cells \<Rightarrow> Inr (join '','' cells))
                     rows of
                Inl err \<Rightarrow> Inl err
              | Inr lines \<Rightarrow> Inr (join [CHR 0x0A] (join '','' headers # lines))))"

definition customers_request :: "string \<Rightarrow> string \<Rightarrow> string \<Rightarrow> fetch_request" where
  "customers_request shop first token =
     \<lparr>fetch_url = ''https://'' @ shop @ ''/admin/api/2026-01/customers.json?limit='' @ first,
      fetch_method = ''GET'',
      fetch_headers = [(''X-Shopify-Access-Token'', token), (''Content-Type'', ''application/json'')],
      fetch_body = None\<rparr>"

text \<open>\<open>(data.customers || [])\<close> as the array \<open>.map\<close> runs over.\<close>

definition customers_of :: "jsval \<Rightarrow> js_error + jsval list" where
  "customers_of data =
     (case get_prop data ''customers'' of
        Inl err \<Rightarrow> Inl err
      | Inr cs \<Rightarrow>
          (case (if truthy cs then cs else JArr []) of
             JArr xs \<Rightarrow> Inr xs
           | _ \<Rightarrow> Inl (TypeError ''(data.customers || []).map is not a function'')))"

text \<open>The object literal of \<open>GET /customers\<close>; reading \<open>c.id\<close> throws when \<open>c\<close> is \<open>null\<close>.\<close>

definition customers_row :: "jsval \<Rightarrow> js_error + (string \<times> jsval) list" where
  "customers_row c =
     (case get_prop c ''id'' of
        Inl err \<Rightarrow> Inl err
      | Inr c_id \<Rightarrow>
          (case formatAddresses (get_prop_opt c ''addresses'') of
             Inl err \<Rightarrow> Inl err
           | Inr addresses \<Rightarrow>
               Inr [(''id'', c_id),
                    (''created_at'', get_prop_opt c ''created_at''),
                    (''updated_at'', get_prop_opt c ''updated_at''),
                    (''first_name'', get_prop_opt c ''first_name''),
                    (''last_name'', get_prop_opt c ''last_name''),
                    (''orders_count'', get_prop_opt c ''orders_count''),
                    (''state'', get_prop_opt c ''state''),
                    (''total_spent'', get_prop_opt c ''total_spent''),
                    (''last_order_id'', get_prop_opt c ''last_order_id''),
                    (''note'', get_prop_opt c ''note''),
                    (''tags'', get_prop_opt c ''tags''),
                    (''email'', get_prop_opt c ''email''),
                    (''phone'', get_prop_opt c ''phone''),
                    (''currency'', get_prop_opt c ''currency''),
                    (''addresses'', JStr addresses)]))"

text \<open>The object literal of \<open>GET /customers.csv\<close>.\<close>

definition customers_csv_row :: "jsval \<Rightarrow> js_error + (string \<times> jsval) list" where
  "customers_csv_row c =
     (case get_prop c ''id'' of
        Inl err \<Rightarrow> Inl err
      | Inr c_id \<Rightarrow>
          (case formatAddresses (get_prop_opt c ''addresses'') of
             Inl err \<Rightarrow> Inl err
           | Inr addresses \<Rightarrow>
               Inr [(''id'', c_id),
                    (''created_at'', get_prop_opt c ''created_at''),
                    (''updated_at'', get_prop_opt c ''updated_at''),
                    (''first_name'', get_prop_opt c ''first_name''),
                    (''last_name'', get_prop_opt c ''last_name''),
                    (''orders_count'', get_prop_opt c ''orders_count''),
                    (''state'', get_prop_opt c ''state''),
                    (''total_spent'', get_prop_opt c ''total_spent''),
                    (''last_order_id'', get_prop_opt c ''last_order_id''),
                    (''note'', get_prop_opt c ''note''),
                    (''tags'', get_prop_opt c ''tags''),
                    (''email'', get_prop_opt c ''email''),
                    (''phone'', get_prop_opt c ''phone''),
                    (''currency'', get_prop_opt c ''currency''),
                    (''addresses'', JStr addresses)]))"

text \<open>\<open>await r.json().catch(() => ({}))\<close>\<close>

definition json_or_empty :: "js_error + jsval \<Rightarrow> jsval" where
  "json_or_empty parsed = (case parsed of Inl err \<Rightarrow> JObj [] | Inr data \<Rightarrow> data)"

text \<open>
  \<open>GET /customers\<close>. The header value is the stored token converted to a string; a
  token that cannot be converted makes \<open>fetch\<close> throw before any request is sent.
\<close>

definition customers_handler :: "tokens \<Rightarrow> request \<Rightarrow> fetch_result \<Rightarrow> result" where
  "customers_handler TOKENS req world =
     (let shop = shop_param req;
          first = first_param req
      in if shop = [] then
           \<lparr>effects = [], reply = SendJson 400 (JObj [(''error'', JStr ''Missing shop param'')])\<rparr>
         else
           (let token = TOKENS_get TOKENS (QStr shop)
            in if \<not> truthy token then
                 \<lparr>effects = [],
                  reply = SendJson 401
                    (JObj [(''error'', JStr ''No token found for this shop. Click Install/Auth first.'')])\<rparr>
               else
                 (case js_toString token of
                    Inl err \<Rightarrow> \<lparr>effects = [], reply = Raised err\<rparr>
                  | Inr header \<Rightarrow>
                      (let call = Fetch (customers_request shop first header)
                       in case world of
                            FetchThrows err \<Rightarrow> \<lparr>effects = [call], reply = Raised err\<rparr>
                          | FetchResponse status parsed \<Rightarrow>
                              (let data = json_or_empty parsed
                               in if \<not> response_ok status then
                                    \<lparr>effects = [call],
                                     reply = SendJson status
                                       (JObj [(''error'',
                                               (if truthy (get_prop_opt data ''errors'')
                                                then get_prop_opt data ''errors''
                                                else JStr ''Shopify API error'')),
                                              (''raw'', data)])\<rparr>
                                  else
                                    (case customers_of data of
                                       Inl err \<Rightarrow> \<lparr>effects = [call], reply = Raised err\<rparr>
                                     | Inr cs \<Rightarrow>
                                         (case map_err customers_row cs of
                                            Inl err \<Rightarrow> \<lparr>effects = [call], reply = Raised err\<rparr>
                                          | Inr customers \<Rightarrow>
                                              \<lparr>effects = [call],
                                               reply = SendJson 200
                                                 (JObj [(''customers'', JArr (map JObj customers))])\<rparr>)))))))"

text \<open>\<open>GET /customers.csv\<close>\<close>

definition customers_csv_handler :: "tokens \<Rightarrow> request \<Rightarrow> fetch_result \<Rightarrow> result" where
  "customers_csv_handler TOKENS req world =
     (let shop = shop_param req;
          first = first_param req
      in if shop = [] then
           \<lparr>effects = [], reply = Send 400 ''Missing shop param''\<rparr>
         else
           (let token = TOKENS_get TOKENS (QStr shop)
            in if \<not> truthy token then
                 \<lparr>effects = [], reply = Send 401 ''No token found. Click Install/Auth first.''\<rparr>
               else
                 (case js_toString token of
                    Inl err \<Rightarrow> \<lparr>effects = [], reply = Raised err\<rparr>
                  | Inr header \<Rightarrow>
                      (let call = Fetch (customers_request shop first header)
                       in case world of
                            FetchThrows err \<Rightarrow> \<lparr>effects = [call], reply = Raised err\<rparr>
                          | FetchResponse status parsed \<Rightarrow>
                              (let data = json_or_empty parsed
                               in if \<not> response_ok status then
                                    \<lparr>effects = [call],
                                     reply = Send status (''Shopify API error: '' @ json_template data)\<rparr>
                                  else
                                    (case customers_of data of
                                       Inl err \<Rightarrow> \<lparr>effects = [call], reply = Raised err\<rparr>
                                     | Inr cs \<Rightarrow>
                                         (case map_err customers_csv_row cs of
                                            Inl err \<Rightarrow> \<lparr>effects = [call], reply = Raised err\<rparr>
                                          | Inr customers \<Rightarrow>
                                              (case toCSV customers of
                                                 Inl err \<Rightarrow> \<lparr>effects = [call], reply = Raised err\<rparr>
                                               | Inr csv \<Rightarrow>
                                                   \<lparr>effects =
                                                      [call,
                                                       SetHeader ''Content-Type'' ''text/csv'',
                                                       SetHeader ''Content-Disposition''
                                                         (''attachment; filename='' @ [CHR 0x22] @
                                                          ''customers-'' @ shop @ ''.csv'' @ [CHR 0x22])],
                                                    reply = Send 200 csv\<rparr>))))))))"

section \<open>The handlers of \<open>server.js\<close>\<close>

definition server_buildInstallUrl :: "env \<Rightarrow> qval \<Rightarrow> string \<Rightarrow> string" where
  "server_buildInstallUrl env shop state =
     (let redirectUri = env_template (SHOPIFY_APP_URL env) @ ''/auth/callback''
      in ''https://'' @ q_toString shop @ ''/admin/oauth/authorize'' @
         ''?client_id='' @ env_template (SHOPIFY_API_KEY env) @
         ''&scope='' @ encodeURIComponent (env_template (SHOPIFY_SCOPES env)) @
         ''&redirect_uri='' @ encodeURIComponent redirectUri @
         ''&state='' @ state)"

text \<open>\<open>GET /auth\<close> of \<open>server.js\<close>: the only test is that \<open>shop\<close> is not falsy.\<close>

definition server_auth_handler :: "env \<Rightarrow> request \<Rightarrow> byte list \<Rightarrow> result" where
  "server_auth_handler env req rnd =
     (case lookup (query req) ''shop'' of
        Some shop \<Rightarrow>
          if \<not> qv_truthy shop then
            \<lparr>effects = [],
             reply = Send 400 ''Missing shop param. Example: /auth?shop=xxx.myshopify.com''\<rparr>
          else
            (let state = hex_encode rnd
             in \<lparr>effects =
                   [SetCookie ''shopify_oauth_state'' state
                      \<lparr>httpOnly = True, secure = None, sameSite = None\<rparr>],
                 reply = Redirect (server_buildInstallUrl env shop state)\<rparr>)
      | None \<Rightarrow>
          \<lparr>effects = [],
           reply = Send 400 ''Missing shop param. Example: /auth?shop=xxx.myshopify.com''\<rparr>)"

text \<open>The exchange of \<open>server.js\<close> has no \<open>try\<close> block: what is thrown leaves the handler.\<close>

definition server_exchange :: "env \<Rightarrow> tokens \<Rightarrow> qval \<Rightarrow> qval \<Rightarrow> fetch_result \<Rightarrow> tokens \<times> result" where
  "server_exchange env TOKENS shop code world =
     (let call = Fetch (token_request env shop code)
      in case world of
           FetchThrows err \<Rightarrow> (TOKENS, \<lparr>effects = [call], reply = Raised err\<rparr>)
         | FetchResponse status parsed \<Rightarrow>
             (case parsed of
                Inl err \<Rightarrow> (TOKENS, \<lparr>effects = [call], reply = Raised err\<rparr>)
              | Inr tokenJson \<Rightarrow>
                  if \<not> response_ok status then
                    (TOKENS,
                     \<lparr>effects = [call],
                      reply = Send 500 (''Token exchange failed: '' @ json_template tokenJson)\<rparr>)
                  else
                    (case get_prop tokenJson ''access_token'' of
                       Inl err \<Rightarrow> (TOKENS, \<lparr>effects = [call], reply = Raised err\<rparr>)
                     | Inr accessToken \<Rightarrow>
                         (TOKENS_set shop accessToken TOKENS,
                          \<lparr>effects = [call],
                           reply = Send 200
                             (''Installed '' @ [CHR 0xE2, CHR 0x9C, CHR 0x85] @ '' Token saved for '' @
                              q_toString shop @ ''. You can now call /customers?shop='' @
                              q_toString shop)\<rparr>))))"

definition server_auth_callback_handler ::
  "(qval \<Rightarrow> js_error + byte list) \<Rightarrow> env \<Rightarrow> tokens \<Rightarrow> request \<Rightarrow> fetch_result \<Rightarrow> tokens \<times> result" where
  "server_auth_callback_handler from_object env TOKENS req world =
     (case (lookup (query req) ''shop'', lookup (query req) ''code'', lookup (query req) ''state'') of
        (Some shop, Some code, Some state) \<Rightarrow>
          if \<not> qv_truthy shop \<or> \<not> qv_truthy code \<or> \<not> qv_truthy state then
            (TOKENS, \<lparr>effects = [], reply = Send 400 ''Missing shop/code/state''\<rparr>)
          else
            (let cookieState = own_prop (cookies req) ''shopify_oauth_state''
             in if \<not> truthy cookieState \<or> \<not> strict_equal cookieState state then
                  (TOKENS, \<lparr>effects = [], reply = Send 400 ''Invalid state. Try /auth again.''\<rparr>)
                else
                  (case server_verifyHmac from_object env (query req) of
                     Inl err \<Rightarrow> (TOKENS, \<lparr>effects = [], reply = Raised err\<rparr>)
                   | Inr verified \<Rightarrow>
                       if \<not> verified then
                         (TOKENS, \<lparr>effects = [], reply = Send 400 ''HMAC verification failed.''\<rparr>)
                       else server_exchange env TOKENS shop code world))
      | _ \<Rightarrow> (TOKENS, \<lparr>effects = [], reply = Send 400 ''Missing shop/code/state''\<rparr>))"

definition server_customers_handler :: "tokens \<Rightarrow> request \<Rightarrow> fetch_result \<Rightarrow> result" where
  "server_customers_handler TOKENS req world =
     (case lookup (query req) ''shop'' of
        None \<Rightarrow> \<lparr>effects = [], reply = SendJson 400 (JObj [(''error'', JStr ''Missing shop param'')])\<rparr>
      | Some shop \<Rightarrow>
          if \<not> qv_truthy shop then
            \<lparr>effects = [], reply = SendJson 400 (JObj [(''error'', JStr ''Missing shop param'')])\<rparr>
          else
            (let token = TOKENS_get TOKENS shop
             in if \<not> truthy token then
                  \<lparr>effects = [],
                   reply = SendJson 401
                     (JObj [(''error'', JStr ''No token found for this shop. Go to /auth?shop=...'')])\<rparr>
                else
                  (case js_toString token of
                     Inl err \<Rightarrow> \<lparr>effects = [], reply = Raised err\<rparr>
                   | Inr header \<Rightarrow>
                       (let call = Fetch (customers_request (q_toString shop) (first_param req) header)
                        in case world of
                             FetchThrows err \<Rightarrow> \<lparr>effects = [call], reply = Raised err\<rparr>
                           | FetchResponse status parsed \<Rightarrow>
                               (case parsed of
                                  Inl err \<Rightarrow> \<lparr>effects = [call], reply = Raised err\<rparr>
                                | Inr data \<Rightarrow> \<lparr>effects = [call], reply = SendJson status data\<rparr>)))))"

section \<open>Runs of the two applications\<close>

text \<open>
  The requests that reach a handler above, with what the world supplies to it. The
  other routes (the dashboard, \<open>/health\<close>, \<open>/exitiframe\<close>) never write \<open>TOKENS\<close>. A
  process starts with the empty map.
\<close>

datatype event =
    GetAuth request "byte list"
  | GetAuthCallback request fetch_result
  | GetCustomers request fetch_result
  | GetCustomersCsv request fetch_result

fun step :: "env \<Rightarrow> tokens \<Rightarrow> event \<Rightarrow> tokens \<times> result" where
  "step env TOKENS (GetAuth req rnd) = (TOKENS, auth_handler env req rnd)"
| "step env TOKENS (GetAuthCallback req world) = auth_callback_handler env TOKENS req world"
| "step env TOKENS (GetCustomers req world) = (TOKENS, customers_handler TOKENS req world)"
| "step env TOKENS (GetCustomersCsv req world) = (TOKENS, customers_csv_handler TOKENS req world)"

fun run :: "env \<Rightarrow> tokens \<Rightarrow> event list \<Rightarrow> tokens" where
  "run env TOKENS [] = TOKENS"
| "run env TOKENS (ev # evs) = run env (fst (step env TOKENS ev)) evs"

datatype server_event =
    ServerGetAuth request "byte list"
  | ServerGetAuthCallback request fetch_result
  | ServerGetCustomers request fetch_result

fun server_step ::
  "(qval \<Rightarrow> js_error + byte list) \<Rightarrow> env \<Rightarrow> tokens \<Rightarrow> server_event \<Rightarrow> tokens \<times> result" where
  "server_step fo env TOKENS (ServerGetAuth req rnd) = (TOKENS, server_auth_handler env req rnd)"
| "server_step fo env TOKENS (ServerGetAuthCallback req world) =
     server_auth_callback_handler fo env TOKENS req world"
| "server_step fo env TOKENS (ServerGetCustomers req world) =
     (TOKENS, server_customers_handler TOKENS req world)"

fun server_run ::
  "(qval \<Rightarrow> js_error + byte list) \<Rightarrow> env \<Rightarrow> tokens \<Rightarrow> server_event list \<Rightarrow> tokens" where
  "server_run fo env TOKENS [] = TOKENS"
| "server_run fo env TOKENS (ev # evs) = server_run fo env (fst (server_step fo env TOKENS ev)) evs"

text \<open>
  The tenant for which a request completed a token exchange with a success response:
  the handler issued the \<open>POST\<close> to that tenant's token endpoint and the answer had a
  status from 200 to 299.
\<close>

definition posts_to_token_endpoint :: "result \<Rightarrow> qval \<Rightarrow> bool" where
  "posts_to_token_endpoint res shop =
     list_ex (\<lambda>eff. case eff of
                      Fetch f \<Rightarrow> fetch_method f = ''POST'' \<and>
                                 fetch_url f = ''https://'' @ q_toString shop @ ''/admin/oauth/access_token''
                    | _ \<Rightarrow> False)
             (effects res)"

definition exchange_completed :: "request \<Rightarrow> fetch_result \<Rightarrow> result \<Rightarrow> qval list" where
  "exchange_completed req world res =
     (case (lookup (query req) ''shop'', world) of
        (Some shop, FetchResponse status parsed) \<Rightarrow>
          if response_ok status \<and> posts_to_token_endpoint res shop then [shop] else []
      | _ \<Rightarrow> [])"

fun exchanged :: "env \<Rightarrow> tokens \<Rightarrow> event list \<Rightarrow> qval list" where
  "exchanged env TOKENS [] = []"
| "exchanged env TOKENS (ev # evs) =
     (case ev of
        GetAuthCallback req world \<Rightarrow> exchange_completed req world (snd (step env TOKENS ev))
      | _ \<Rightarrow> []) @
     exchanged env (fst (step env TOKENS ev)) evs"

fun server_exchanged ::
  "(qval \<Rightarrow> js_error + byte list) \<Rightarrow> env \<Rightarrow> tokens \<Rightarrow> server_event list \<Rightarrow> qval list" where
  "server_exchanged fo env TOKENS [] = []"
| "server_exchanged fo env TOKENS (ev # evs) =
     (case ev of
        ServerGetAuthCallback req world \<Rightarrow>
          exchange_completed req world (snd (server_step fo env TOKENS ev))
      | _ \<Rightarrow> []) @
     server_exchanged fo env (fst (server_step fo env TOKENS ev)) evs"

text \<open>
  State validation as the specification words it: true only if both values are present,
  non-empty and exactly equal.
\<close>

definition validate_spec :: "jsval \<Rightarrow> qval option \<Rightarrow> bool" where
  "validate_spec cookieToken callbackToken =
     (case (cookieToken, callbackToken) of
        (JStr a, Some (QStr b)) \<Rightarrow> a \<noteq> [] \<and> b \<noteq> [] \<and> a = b
      | _ \<Rightarrow> False)"

text \<open>
  The other side of the handshake, for examples: the platform appends to the
  parameters it sends the HMAC-SHA256 of their canonical message under the shared
  secret, in hexadecimal.
\<close>

definition signed_query :: "string \<Rightarrow> (string \<times> qval) list \<Rightarrow> (string \<times> qval) list" where
  "signed_query secret q =
     q @ [(''hmac'',
           QStr (hex_encode (hmac_sha256 (utf8_bytes secret) (utf8_bytes (canonical_message q)))))]"

definition example_env :: env where
  "example_env =
     \<lparr>SHOPIFY_API_KEY = Some ''key'', SHOPIFY_API_SECRET = Some ''shhh'',
      SHOPIFY_SCOPES = Some ''read_customers'',
      SHOPIFY_APP_URL = Some ''https://app.example.com''\<rparr>"

definition example_callback :: request where
  "example_callback =
     \<lparr>query = signed_query ''shhh''
                [(''code'', QStr ''c0de''), (''shop'', QStr ''a.myshopify.com''), (''state'', QStr ''5f3a'')],
      cookies = [(''shopify_oauth_state'', JStr ''5f3a'')]\<rparr>"


text \<open>An upstream customer record, the row both endpoints make of it, and its CSV.\<close>

definition example_customer :: jsval where
  "example_customer =
     JObj [(''id'', JNum 7), (''first_name'', JStr ''Ada''), (''note'', JStr ''a, b''),
           (''addresses'', JArr [JObj [(''address1'', JStr ''1 Main St''), (''city'', JStr ''Paris'')]])]"

definition example_row :: "(string \<times> jsval) list" where
  "example_row =
     [(''id'', JNum 7), (''created_at'', JUndefined), (''updated_at'', JUndefined),
      (''first_name'', JStr ''Ada''), (''last_name'', JUndefined), (''orders_count'', JUndefined),
      (''state'', JUndefined), (''total_spent'', JUndefined), (''last_order_id'', JUndefined),
      (''note'', JStr ''a, b''), (''tags'', JUndefined), (''email'', JUndefined),
      (''phone'', JUndefined), (''currency'', JUndefined), (''addresses'', JStr ''1 Main St, Paris'')]"

definition example_csv :: string where
  "example_csv =
     ''id,created_at,updated_at,first_name,last_name,orders_count,state,total_spent,last_order_id,note,tags,email,phone,currency,addresses'' @
     [CHR 0x0A] @ ''7,,,Ada,,,,,,'' @ [CHR 0x22] @ ''a, b'' @ [CHR 0x22] @ '',,,,,'' @
     [CHR 0x22] @ ''1 Main St, Paris'' @ [CHR 0x22]"

definition example_customers_request :: request where
  "example_customers_request = \<lparr>query = [(''shop'', QStr ''b.myshopify.com'')], cookies = []\<rparr>"

text \<open>
  \<open>toCSV\<close> as the claim words it: nothing for no rows; otherwise the keys of the first
  row joined by commas, then one line per row with one field per header in header order;
  a \<open>null\<close> or \<open>undefined\<close> field is empty, and a field containing a comma, a double
  quote or a newline is wrapped in double quotes with each double quote doubled.
\<close>

definition csv_field_spec :: "jsval \<Rightarrow> string" where
  "csv_field_spec val =
     (if val = JNull \<or> val = JUndefined then []
      else
        (let s = (case js_toString val of Inr t \<Rightarrow> t | Inl err \<Rightarrow> [])
         in if list_ex (\<lambda>c. c = CHR '','' \<or> c = CHR 0x22 \<or> c = CHR 0x0A) s
            then CHR 0x22 #
                 foldr (\<lambda>c acc. if c = CHR 0x22 then CHR 0x22 # CHR 0x22 # acc else c # acc) s [CHR 0x22]
            else s))"

definition toCSV_spec :: "(string \<times> jsval) list list \<Rightarrow> string" where
  "toCSV_spec rows =
     (if rows = [] then []
      else
        (let headers = map fst (hd rows)
         in join [CHR 0x0A]
              (join '','' headers #
               map (\<lambda>row. join '','' (map (\<lambda>h. csv_field_spec (own_prop row h)) headers)) rows)))"

text \<open>A value \<open>String\<close> converts without throwing.\<close>

definition convertible :: "jsval \<Rightarrow> bool" where
  "convertible v = (case js_toString v of Inr t \<Rightarrow> True | Inl err \<Rightarrow> False)"




section \<open>Auxiliary facts\<close>



lemma keys_alist_set: "fst ` set (alist_set k v m) = insert k (fst ` set m)"
  by (induction m) auto



lemma state_check:
  "(truthy c \<and> strict_equal c st) = (\<exists>s. s \<noteq> [] \<and> c = JStr s \<and> st = QStr s)"
  by (cases c; cases st) auto

lemma exchange_cases:
  "exchange env T shop code world = (T', r) \<Longrightarrow>
     effects r = [Fetch (token_request env shop code)] \<and>
     ((T' = T \<and> status_of (reply r) = Some 500) \<or>
      (\<exists>st tokenJson tok. world = FetchResponse st (Inr tokenJson) \<and> response_ok st \<and>
          get_prop tokenJson ''access_token'' = Inr tok \<and> T' = TOKENS_set shop tok T \<and>
          reply r = Redirect (''/?shop='' @ encodeURIComponent (q_toString shop))))"
  by (auto simp: exchange_def Let_def callback_error_def split: fetch_result.splits sum.splits if_splits)

lemma server_exchange_cases:
  "server_exchange env T shop code world = (T', r) \<Longrightarrow>
     effects r = [Fetch (token_request env shop code)] \<and>
     ((T' = T \<and> (status_of (reply r) = Some 500 \<or> status_of (reply r) = None)) \<or>
      (\<exists>st tokenJson tok. world = FetchResponse st (Inr tokenJson) \<and> response_ok st \<and>
          get_prop tokenJson ''access_token'' = Inr tok \<and> T' = TOKENS_set shop tok T \<and>
          status_of (reply r) = Some 200))"
  by (auto simp: server_exchange_def Let_def split: fetch_result.splits sum.splits if_splits)

lemma callback_missing:
  "\<not> (q_truthy (lookup (query req) ''shop'') \<and> q_truthy (lookup (query req) ''code'') \<and>
       q_truthy (lookup (query req) ''state'')) \<Longrightarrow>
   auth_callback_handler env T req world = (T, \<lparr>effects = [], reply = missing_callback_params\<rparr>)"
  by (auto simp add: auth_callback_handler_def q_truthy_def split: option.splits)

lemma callback_present:
  "lookup (query req) ''shop'' = Some shop \<Longrightarrow> lookup (query req) ''code'' = Some code \<Longrightarrow>
   lookup (query req) ''state'' = Some state \<Longrightarrow> qv_truthy shop \<Longrightarrow> qv_truthy code \<Longrightarrow> qv_truthy state \<Longrightarrow>
   auth_callback_handler env T req world =
     (if \<not> (truthy (own_prop (cookies req) ''shopify_oauth_state'') \<and>
              strict_equal (own_prop (cookies req) ''shopify_oauth_state'') state)
      then (T, \<lparr>effects = [], reply = Send 400 ''Invalid state. Try /auth again.''\<rparr>)
      else case verifyHmac env (query req) of
             Inl err \<Rightarrow> (T, \<lparr>effects = [], reply = Raised err\<rparr>)
           | Inr verified \<Rightarrow>
               if \<not> verified then (T, \<lparr>effects = [], reply = Send 400 ''HMAC verification failed.''\<rparr>)
               else exchange env T shop code world)"
  by (simp add: auth_callback_handler_def Let_def)

lemma q_truthy_Some: "q_truthy v \<Longrightarrow> \<exists>x. v = Some x \<and> qv_truthy x"
  by (cases v) (auto simp: q_truthy_def)

lemma get_prop_Inr: "get_prop v k = Inr x \<Longrightarrow> x = get_prop_opt v k"
  by (cases v) auto

lemma callback_outcomes:
  assumes "auth_callback_handler env T req world = (T', r)"
  shows "(T' = T \<and> effects r = [] \<and>
            (status_of (reply r) = Some 400 \<or> (\<exists>e. verifyHmac env (query req) = Inl e \<and> reply r = Raised e))) \<or>
         (\<exists>shop code s. lookup (query req) ''shop'' = Some shop \<and> qv_truthy shop \<and>
            lookup (query req) ''code'' = Some code \<and> qv_truthy code \<and>
            lookup (query req) ''state'' = Some (QStr s) \<and> s \<noteq> [] \<and>
            own_prop (cookies req) ''shopify_oauth_state'' = JStr s \<and>
            verifyHmac env (query req) = Inr True \<and>
            exchange env T shop code world = (T', r))"
proof (cases "q_truthy (lookup (query req) ''shop'') \<and> q_truthy (lookup (query req) ''code'') \<and>
              q_truthy (lookup (query req) ''state'')")
  case False
  from callback_missing [OF False, of env T world] assms
  show ?thesis by (auto simp: missing_callback_params_def)
next
  case True
  then obtain shop code state where
    p: "lookup (query req) ''shop'' = Some shop" "qv_truthy shop"
       "lookup (query req) ''code'' = Some code" "qv_truthy code"
       "lookup (query req) ''state'' = Some state" "qv_truthy state"
    by (auto dest!: q_truthy_Some)
  note eq = callback_present [OF p(1) p(3) p(5) p(2) p(4) p(6), of env T world]
  show ?thesis
  proof (cases "truthy (own_prop (cookies req) ''shopify_oauth_state'') \<and>
                strict_equal (own_prop (cookies req) ''shopify_oauth_state'') state")
    case False
    with eq assms show ?thesis by auto
  next
    case ok: True
    then obtain s where s: "s \<noteq> []" "own_prop (cookies req) ''shopify_oauth_state'' = JStr s" "state = QStr s"
      using state_check by blast
    show ?thesis
    proof (cases "verifyHmac env (query req)")
      case (Inl e)
      with eq ok assms show ?thesis by auto
    next
      case (Inr b)
      show ?thesis
      proof (cases b)
        case False
        with Inr eq ok assms show ?thesis by auto
      next
        case True
        with Inr eq ok assms have "exchange env T shop code world = (T', r)" by simp
        with p s True Inr show ?thesis by auto
      qed
    qed
  qed
qed

lemma server_callback_missing:
  "\<not> (q_truthy (lookup (query req) ''shop'') \<and> q_truthy (lookup (query req) ''code'') \<and>
       q_truthy (lookup (query req) ''state'')) \<Longrightarrow>
   server_auth_callback_handler fo env T req world =
     (T, \<lparr>effects = [], reply = Send 400 ''Missing shop/code/state''\<rparr>)"
  by (auto simp add: server_auth_callback_handler_def q_truthy_def split: option.splits)

lemma server_callback_present:
  "lookup (query req) ''shop'' = Some shop \<Longrightarrow> lookup (query req) ''code'' = Some code \<Longrightarrow>
   lookup (query req) ''state'' = Some state \<Longrightarrow> qv_truthy shop \<Longrightarrow> qv_truthy code \<Longrightarrow> qv_truthy state \<Longrightarrow>
   server_auth_callback_handler fo env T req world =
     (if \<not> (truthy (own_prop (cookies req) ''shopify_oauth_state'') \<and>
              strict_equal (own_prop (cookies req) ''shopify_oauth_state'') state)
      then (T, \<lparr>effects = [], reply = Send 400 ''Invalid state. Try /auth again.''\<rparr>)
      else case server_verifyHmac fo env (query req) of
             Inl err \<Rightarrow> (T, \<lparr>effects = [], reply = Raised err\<rparr>)
           | Inr verified \<Rightarrow>
               if \<not> verified then (T, \<lparr>effects = [], reply = Send 400 ''HMAC verification failed.''\<rparr>)
               else server_exchange env T shop code world)"
  by (simp add: server_auth_callback_handler_def Let_def)

lemma server_callback_outcomes:
  assumes "server_auth_callback_handler fo env T req world = (T', r)"
  shows "(T' = T \<and> effects r = [] \<and>
            (status_of (reply r) = Some 400 \<or>
             (\<exists>e. server_verifyHmac fo env (query req) = Inl e \<and> reply r = Raised e))) \<or>
         (\<exists>shop code s. lookup (query req) ''shop'' = Some shop \<and> qv_truthy shop \<and>
            lookup (query req) ''code'' = Some code \<and> qv_truthy code \<and>
            lookup (query req) ''state'' = Some (QStr s) \<and> s \<noteq> [] \<and>
            own_prop (cookies req) ''shopify_oauth_state'' = JStr s \<and>
            server_verifyHmac fo env (query req) = Inr True \<and>
            server_exchange env T shop code world = (T', r))"
proof (cases "q_truthy (lookup (query req) ''shop'') \<and> q_truthy (lookup (query req) ''code'') \<and>
              q_truthy (lookup (query req) ''state'')")
  case False
  from server_callback_missing [OF False, of fo env T world] assms
  show ?thesis by auto
next
  case True
  then obtain shop code state where
    p: "lookup (query req) ''shop'' = Some shop" "qv_truthy shop"
       "lookup (query req) ''code'' = Some code" "qv_truthy code"
       "lookup (query req) ''state'' = Some state" "qv_truthy state"
    by (auto dest!: q_truthy_Some)
  note eq = server_callback_present [OF p(1) p(3) p(5) p(2) p(4) p(6), of fo env T world]
  show ?thesis
  proof (cases "truthy (own_prop (cookies req) ''shopify_oauth_state'') \<and>
                strict_equal (own_prop (cookies req) ''shopify_oauth_state'') state")
    case False
    with eq assms show ?thesis by auto
  next
    case ok: True
    then obtain s where s: "s \<noteq> []" "own_prop (cookies req) ''shopify_oauth_state'' = JStr s" "state = QStr s"
      using state_check by blast
    show ?thesis
    proof (cases "server_verifyHmac fo env (query req)")
      case (Inl e)
      with eq ok assms show ?thesis by auto
    next
      case (Inr b)
      show ?thesis
      proof (cases b)
        case False
        with Inr eq ok assms show ?thesis by auto
      next
        case True
        with Inr eq ok assms have "server_exchange env T shop code world = (T', r)" by simp
        with p s True Inr show ?thesis by auto
      qed
    qed
  qed
qed


lemma validate_spec_iff:
  "validate_spec c st = (\<exists>s. s \<noteq> [] \<and> c = JStr s \<and> st = Some (QStr s))"
  by (auto simp: validate_spec_def split: jsval.splits option.splits qval.splits)

lemma callback_rejects_invalid_state:
  assumes "\<not> (\<exists>s. s \<noteq> [] \<and> own_prop (cookies req) ''shopify_oauth_state'' = JStr s \<and>
                  lookup (query req) ''state'' = Some (QStr s))"
  shows "\<exists>msg. auth_callback_handler env T req world = (T, \<lparr>effects = [], reply = Send 400 msg\<rparr>)"
proof (cases "q_truthy (lookup (query req) ''shop'') \<and> q_truthy (lookup (query req) ''code'') \<and>
              q_truthy (lookup (query req) ''state'')")
  case False
  from callback_missing [OF False, of env T world]
  show ?thesis by (simp add: missing_callback_params_def)
next
  case True
  then obtain shop code state where
    p: "lookup (query req) ''shop'' = Some shop" "qv_truthy shop"
       "lookup (query req) ''code'' = Some code" "qv_truthy code"
       "lookup (query req) ''state'' = Some state" "qv_truthy state"
    by (auto dest!: q_truthy_Some)
  from assms p(5) have "\<not> (truthy (own_prop (cookies req) ''shopify_oauth_state'') \<and>
                strict_equal (own_prop (cookies req) ''shopify_oauth_state'') state)"
    by (simp add: state_check)
  with callback_present [OF p(1) p(3) p(5) p(2) p(4) p(6), of env T world]
  show ?thesis by auto
qed

lemma server_callback_rejects_invalid_state:
  assumes "\<not> (\<exists>s. s \<noteq> [] \<and> own_prop (cookies req) ''shopify_oauth_state'' = JStr s \<and>
                  lookup (query req) ''state'' = Some (QStr s))"
  shows "\<exists>msg. server_auth_callback_handler fo env T req world = (T, \<lparr>effects = [], reply = Send 400 msg\<rparr>)"
proof (cases "q_truthy (lookup (query req) ''shop'') \<and> q_truthy (lookup (query req) ''code'') \<and>
              q_truthy (lookup (query req) ''state'')")
  case False
  from server_callback_missing [OF False, of fo env T world]
  show ?thesis by simp
next
  case True
  then obtain shop code state where
    p: "lookup (query req) ''shop'' = Some shop" "qv_truthy shop"
       "lookup (query req) ''code'' = Some code" "qv_truthy code"
       "lookup (query req) ''state'' = Some state" "qv_truthy state"
    by (auto dest!: q_truthy_Some)
  from assms p(5) have "\<not> (truthy (own_prop (cookies req) ''shopify_oauth_state'') \<and>
                strict_equal (own_prop (cookies req) ''shopify_oauth_state'') state)"
    by (simp add: state_check)
  with server_callback_present [OF p(1) p(3) p(5) p(2) p(4) p(6), of fo env T world]
  show ?thesis by auto
qed

lemma callback_accepts_valid_state:
  assumes "own_prop (cookies req) ''shopify_oauth_state'' = JStr s" "lookup (query req) ''state'' = Some (QStr s)"
    and "s \<noteq> []"
  shows "reply (snd (auth_callback_handler env T req world)) \<noteq> Send 400 ''Invalid state. Try /auth again.''"
proof -
  obtain T' r where h: "auth_callback_handler env T req world = (T', r)"
    by (cases "auth_callback_handler env T req world")
  show ?thesis
  proof (cases "q_truthy (lookup (query req) ''shop'') \<and> q_truthy (lookup (query req) ''code'')")
    case False
    then have "\<not> (q_truthy (lookup (query req) ''shop'') \<and> q_truthy (lookup (query req) ''code'') \<and>
              q_truthy (lookup (query req) ''state''))" by blast
    from callback_missing [OF this, of env T world]
    show ?thesis by (simp add: missing_callback_params_def)
  next
    case True
    then obtain shop code where
      p: "lookup (query req) ''shop'' = Some shop" "qv_truthy shop"
         "lookup (query req) ''code'' = Some code" "qv_truthy code"
      by (auto dest!: q_truthy_Some)
    have st: "qv_truthy (QStr s)" using assms(3) by simp
    note eq = callback_present [OF p(1) p(3) assms(2) p(2) p(4) st, of env T world]
    show ?thesis
    proof (cases "verifyHmac env (query req)")
      case (Inl e)
      with eq assms show ?thesis by simp
    next
      case (Inr b)
      show ?thesis
      proof (cases b)
        case False
        with Inr eq assms show ?thesis by simp
      next
        case True
        with Inr eq assms h have "exchange env T shop code world = (T', r)" by simp
        from exchange_cases [OF this] h show ?thesis by auto
      qed
    qed
  qed
qed

lemma server_callback_accepts_valid_state:
  assumes "own_prop (cookies req) ''shopify_oauth_state'' = JStr s" "lookup (query req) ''state'' = Some (QStr s)"
    and "s \<noteq> []"
  shows "reply (snd (server_auth_callback_handler fo env T req world)) \<noteq> Send 400 ''Invalid state. Try /auth again.''"
proof -
  obtain T' r where h: "server_auth_callback_handler fo env T req world = (T', r)"
    by (cases "server_auth_callback_handler fo env T req world")
  show ?thesis
  proof (cases "q_truthy (lookup (query req) ''shop'') \<and> q_truthy (lookup (query req) ''code'')")
    case False
    then have "\<not> (q_truthy (lookup (query req) ''shop'') \<and> q_truthy (lookup (query req) ''code'') \<and>
              q_truthy (lookup (query req) ''state''))" by blast
    from server_callback_missing [OF this, of fo env T world]
    show ?thesis by simp
  next
    case True
    then obtain shop code where
      p: "lookup (query req) ''shop'' = Some shop" "qv_truthy shop"
         "lookup (query req) ''code'' = Some code" "qv_truthy code"
      by (auto dest!: q_truthy_Some)
    have st: "qv_truthy (QStr s)" using assms(3) by simp
    note eq = server_callback_present [OF p(1) p(3) assms(2) p(2) p(4) st, of fo env T world]
    show ?thesis
    proof (cases "server_verifyHmac fo env (query req)")
      case (Inl e)
      with eq assms show ?thesis by simp
    next
      case (Inr b)
      show ?thesis
      proof (cases b)
        case False
        with Inr eq assms show ?thesis by simp
      next
        case True
        with Inr eq assms h have "server_exchange env T shop code world = (T', r)" by simp
        from server_exchange_cases [OF this] h show ?thesis by auto
      qed
    qed
  qed
qed

lemma length_bytes_of: "length (bytes_of w) = 4"
  by (simp add: bytes_of_def)

lemma length_state_bytes: "length (state_bytes s) = 32"
  by (cases s rule: state_bytes.cases) (simp add: length_bytes_of)

lemma length_sha256: "length (sha256 m) = 32"
  by (simp add: sha256_def Let_def length_state_bytes)

lemma length_hmac_sha256: "length (hmac_sha256 k m) = 32"
  by (simp add: hmac_sha256_def Let_def length_sha256)

lemma unhex_hex_digit: "n < 16 \<Longrightarrow> unhex (hex_digit n) = Some n"
  by (auto simp: unhex_def hex_digit_def Let_def)

lemma byte_split: "of_nat (16 * (unat b div 16) + unat b mod 16) = (b :: byte)"
  by simp

lemma unat_byte_div: "unat (b :: byte) div 16 < 16"
  using unsigned_less [of b, where 'a = nat] by simp

lemma hex_decode_encode: "hex_decode (hex_encode bs) = bs"
  by (induction bs) (simp_all add: hex_encode_def unhex_hex_digit unat_byte_div)

lemma hex_decode_stop: "unhex c = None \<Longrightarrow> hex_decode (c # r) = []"
  by (cases r) simp_all

lemma hex_decode_encode_append:
  "unhex c = None \<Longrightarrow> hex_decode (hex_encode bs @ c # r) = bs"
  by (induction bs) (simp_all add: hex_encode_def unhex_hex_digit unat_byte_div hex_decode_stop)


lemma verifyHmac_configured:
  "SHOPIFY_API_SECRET env = Some k \<Longrightarrow>
   verifyHmac env q =
     Inr (q_truthy (lookup q ''hmac'') \<and>
          hex_decode (q_template (lookup q ''hmac'')) =
            hmac_sha256 (utf8_bytes k) (utf8_bytes (canonical_message q)))"
  by (auto simp: verifyHmac_def createHmac_sha256_hex_def Let_def hex_decode_encode
        timingSafeEqual_def length_hmac_sha256)

lemma verifyHmac_unconfigured:
  "SHOPIFY_API_SECRET env = None \<Longrightarrow> q_truthy (lookup q ''hmac'') \<Longrightarrow>
   \<exists>e. verifyHmac env q = Inl e"
  by (simp add: verifyHmac_def createHmac_sha256_hex_def)

lemma length_hex_encode: "length (hex_encode bs) = 2 * length bs"
  by (induction bs) (simp_all add: hex_encode_def)

lemma canonical_message_signed:
  "canonical_message (signed_query k q) = canonical_message q"
  by (simp add: canonical_message_def signed_query_def)

lemma lookup_hmac_signed:
  "''hmac'' \<notin> fst ` set q \<Longrightarrow>
   lookup (signed_query k q) ''hmac'' =
     Some (QStr (hex_encode (hmac_sha256 (utf8_bytes k) (utf8_bytes (canonical_message q)))))"
  by (auto simp: lookup_def signed_query_def map_add_def map_of_eq_None_iff [symmetric]
        split: option.splits)

lemma verifyHmac_signed:
  assumes "SHOPIFY_API_SECRET env = Some k" "''hmac'' \<notin> fst ` set q"
  shows "verifyHmac env (signed_query k q) = Inr True"
proof -
  have "hex_encode (hmac_sha256 (utf8_bytes k) (utf8_bytes (canonical_message q))) \<noteq> []"
    using length_hex_encode [of "hmac_sha256 (utf8_bytes k) (utf8_bytes (canonical_message q))"]
    by (auto simp: length_hmac_sha256)
  then show ?thesis
    by (simp add: verifyHmac_configured [OF assms(1)] lookup_hmac_signed [OF assms(2)]
          canonical_message_signed q_truthy_def q_template_def hex_decode_encode)
qed


lemma example_verifies: "verifyHmac example_env (query example_callback) = Inr True"
  by (simp add: example_callback_def verifyHmac_signed example_env_def)

lemma example_params:
  "lookup (query example_callback) ''shop'' = Some (QStr ''a.myshopify.com'')"
  "lookup (query example_callback) ''code'' = Some (QStr ''c0de'')"
  "lookup (query example_callback) ''state'' = Some (QStr ''5f3a'')"
  "own_prop (cookies example_callback) ''shopify_oauth_state'' = JStr ''5f3a''"
  by (simp_all add: example_callback_def signed_query_def lookup_def own_prop_def)

lemma example_callback_runs:
  "auth_callback_handler example_env T example_callback world =
     exchange example_env T (QStr ''a.myshopify.com'') (QStr ''c0de'') world"
  by (simp add: callback_present [OF example_params(1) example_params(2) example_params(3)]
        example_params(4) example_verifies)







lemma keys_TOKENS_set: "fst ` set (TOKENS_set k v T) = insert k (fst ` set T)"
  by (cases k) (auto simp: TOKENS_set_def keys_alist_set)

lemma posts_token_request:
  "posts_to_token_endpoint \<lparr>effects = [Fetch (token_request env shop code)], reply = x\<rparr> shop"
  by (simp add: posts_to_token_endpoint_def token_request_def)

lemma callback_store:
  assumes "auth_callback_handler env T req world = (T', r)"
  shows "T' = T \<or>
         (\<exists>shop code st tokenJson.
            lookup (query req) ''shop'' = Some shop \<and>
            world = FetchResponse st (Inr tokenJson) \<and> response_ok st \<and>
            T' = TOKENS_set shop (get_prop_opt tokenJson ''access_token'') T \<and>
            effects r = [Fetch (token_request env shop code)])"
proof -
  from callback_outcomes [OF assms]
  show ?thesis
  proof
    assume "T' = T \<and> effects r = [] \<and>
      (status_of (reply r) = Some 400 \<or> (\<exists>e. verifyHmac env (query req) = Inl e \<and> reply r = Raised e))"
    then show ?thesis by simp
  next
    assume "\<exists>shop code s. lookup (query req) ''shop'' = Some shop \<and> qv_truthy shop \<and>
            lookup (query req) ''code'' = Some code \<and> qv_truthy code \<and>
            lookup (query req) ''state'' = Some (QStr s) \<and> s \<noteq> [] \<and>
            own_prop (cookies req) ''shopify_oauth_state'' = JStr s \<and>
            verifyHmac env (query req) = Inr True \<and>
            exchange env T shop code world = (T', r)"
    then obtain shop code where
      p: "lookup (query req) ''shop'' = Some shop" "exchange env T shop code world = (T', r)"
      by blast
    from exchange_cases [OF p(2)] p(1) show ?thesis
      by (auto dest: get_prop_Inr)
  qed
qed

lemma server_callback_store:
  assumes "server_auth_callback_handler fo env T req world = (T', r)"
  shows "T' = T \<or>
         (\<exists>shop code st tokenJson.
            lookup (query req) ''shop'' = Some shop \<and>
            world = FetchResponse st (Inr tokenJson) \<and> response_ok st \<and>
            T' = TOKENS_set shop (get_prop_opt tokenJson ''access_token'') T \<and>
            effects r = [Fetch (token_request env shop code)])"
proof -
  from server_callback_outcomes [OF assms]
  show ?thesis
  proof
    assume "T' = T \<and> effects r = [] \<and>
      (status_of (reply r) = Some 400 \<or>
       (\<exists>e. server_verifyHmac fo env (query req) = Inl e \<and> reply r = Raised e))"
    then show ?thesis by simp
  next
    assume "\<exists>shop code s. lookup (query req) ''shop'' = Some shop \<and> qv_truthy shop \<and>
            lookup (query req) ''code'' = Some code \<and> qv_truthy code \<and>
            lookup (query req) ''state'' = Some (QStr s) \<and> s \<noteq> [] \<and>
            own_prop (cookies req) ''shopify_oauth_state'' = JStr s \<and>
            server_verifyHmac fo env (query req) = Inr True \<and>
            server_exchange env T shop code world = (T', r)"
    then obtain shop code where
      p: "lookup (query req) ''shop'' = Some shop" "server_exchange env T shop code world = (T', r)"
      by blast
    from server_exchange_cases [OF p(2)] p(1) show ?thesis
      by (auto dest: get_prop_Inr)
  qed
qed

lemma callback_keys:
  "fst ` set (fst (auth_callback_handler env T req world)) \<subseteq>
     fst ` set T \<union> set (exchange_completed req world (snd (auth_callback_handler env T req world)))"
proof -
  obtain T' r where h: "auth_callback_handler env T req world = (T', r)"
    by (cases "auth_callback_handler env T req world")
  from callback_store [OF h] show ?thesis
  proof
    assume "T' = T" with h show ?thesis by auto
  next
    assume "\<exists>shop code st tokenJson.
            lookup (query req) ''shop'' = Some shop \<and>
            world = FetchResponse st (Inr tokenJson) \<and> response_ok st \<and>
            T' = TOKENS_set shop (get_prop_opt tokenJson ''access_token'') T \<and>
            effects r = [Fetch (token_request env shop code)]"
    then obtain shop code st tokenJson where
      s: "lookup (query req) ''shop'' = Some shop" "world = FetchResponse st (Inr tokenJson)"
         "response_ok st" "T' = TOKENS_set shop (get_prop_opt tokenJson ''access_token'') T"
         "effects r = [Fetch (token_request env shop code)]"
      by blast
    from s(5) have "posts_to_token_endpoint r shop"
      by (simp add: posts_to_token_endpoint_def token_request_def)
    with s h show ?thesis
      by (simp add: exchange_completed_def keys_TOKENS_set)
  qed
qed

lemma server_callback_keys:
  "fst ` set (fst (server_auth_callback_handler fo env T req world)) \<subseteq>
     fst ` set T \<union> set (exchange_completed req world (snd (server_auth_callback_handler fo env T req world)))"
proof -
  obtain T' r where h: "server_auth_callback_handler fo env T req world = (T', r)"
    by (cases "server_auth_callback_handler fo env T req world")
  from server_callback_store [OF h] show ?thesis
  proof
    assume "T' = T" with h show ?thesis by auto
  next
    assume "\<exists>shop code st tokenJson.
            lookup (query req) ''shop'' = Some shop \<and>
            world = FetchResponse st (Inr tokenJson) \<and> response_ok st \<and>
            T' = TOKENS_set shop (get_prop_opt tokenJson ''access_token'') T \<and>
            effects r = [Fetch (token_request env shop code)]"
    then obtain shop code st tokenJson where
      s: "lookup (query req) ''shop'' = Some shop" "world = FetchResponse st (Inr tokenJson)"
         "response_ok st" "T' = TOKENS_set shop (get_prop_opt tokenJson ''access_token'') T"
         "effects r = [Fetch (token_request env shop code)]"
      by blast
    from s(5) have "posts_to_token_endpoint r shop"
      by (simp add: posts_to_token_endpoint_def token_request_def)
    with s h show ?thesis
      by (simp add: exchange_completed_def keys_TOKENS_set)
  qed
qed

lemma run_keys:
  "fst ` set (run env T evs) \<subseteq> fst ` set T \<union> set (exchanged env T evs)"
proof (induction evs arbitrary: T)
  case Nil
  show ?case by simp
next
  case (Cons ev evs)
  define now where
    "now = (case ev of GetAuthCallback req world \<Rightarrow>
              exchange_completed req world (snd (step env T ev)) | _ \<Rightarrow> [])"
  have st: "fst ` set (fst (step env T ev)) \<subseteq> fst ` set T \<union> set now"
    unfolding now_def using callback_keys by (cases ev) simp_all
  have ex: "exchanged env T (ev # evs) = now @ exchanged env (fst (step env T ev)) evs"
    by (simp add: now_def)
  from Cons.IH [of "fst (step env T ev)"] st
  have "fst ` set (run env (fst (step env T ev)) evs) \<subseteq>
          fst ` set T \<union> (set now \<union> set (exchanged env (fst (step env T ev)) evs))"
    by blast
  then show ?case
    unfolding ex by simp
qed

lemma server_run_keys:
  "fst ` set (server_run fo env T evs) \<subseteq> fst ` set T \<union> set (server_exchanged fo env T evs)"
proof (induction evs arbitrary: T)
  case Nil
  show ?case by simp
next
  case (Cons ev evs)
  define now where
    "now = (case ev of ServerGetAuthCallback req world \<Rightarrow>
              exchange_completed req world (snd (server_step fo env T ev)) | _ \<Rightarrow> [])"
  have st: "fst ` set (fst (server_step fo env T ev)) \<subseteq> fst ` set T \<union> set now"
    unfolding now_def using server_callback_keys by (cases ev) simp_all
  have ex: "server_exchanged fo env T (ev # evs) =
              now @ server_exchanged fo env (fst (server_step fo env T ev)) evs"
    by (simp add: now_def)
  from Cons.IH [of "fst (server_step fo env T ev)"] st
  have "fst ` set (server_run fo env (fst (server_step fo env T ev)) evs) \<subseteq>
          fst ` set T \<union> (set now \<union> set (server_exchanged fo env (fst (server_step fo env T ev)) evs))"
    by blast
  then show ?case
    unfolding ex by simp
qed

lemma failed_exchange_keeps_store:
  assumes "\<not> (\<exists>st tokenJson. world = FetchResponse st (Inr tokenJson) \<and> response_ok st)"
  shows "fst (auth_callback_handler env T req world) = T \<and>
         fst (server_auth_callback_handler fo env T req world) = T"
proof
  obtain T' r where h: "auth_callback_handler env T req world = (T', r)"
    by (cases "auth_callback_handler env T req world")
  from callback_store [OF h] assms h
  show "fst (auth_callback_handler env T req world) = T" by auto
  obtain T'' r' where h': "server_auth_callback_handler fo env T req world = (T'', r')"
    by (cases "server_auth_callback_handler fo env T req world")
  from server_callback_store [OF h'] assms h'
  show "fst (server_auth_callback_handler fo env T req world) = T" by auto
qed












lemma trim_example: "trim ''b.myshopify.com'' = ''b.myshopify.com''"
  by code_simp

lemma trim_empty: "trim [] = []"
  by code_simp








lemma server_auth_not_a_shop:
  "server_auth_handler example_env \<lparr>query = [(''shop'', QStr ''not-a-shop'')], cookies = []\<rparr> [0x5f, 0x3a] =
     \<lparr>effects =
        [SetCookie ''shopify_oauth_state'' ''5f3a''
           \<lparr>httpOnly = True, secure = None, sameSite = None\<rparr>],
      reply = Redirect
        ''https://not-a-shop/admin/oauth/authorize?client_id=key&scope=read_customers&redirect_uri=https%3A%2F%2Fapp.example.com%2Fauth%2Fcallback&state=5f3a''\<rparr>"
  by code_simp

lemma customers_rows_agree: "customers_row c = customers_csv_row c"
  by (simp add: customers_row_def customers_csv_row_def)

lemma customers_row_fields:
  assumes "customers_row c = Inr row"
  shows "map fst row =
           [''id'', ''created_at'', ''updated_at'', ''first_name'', ''last_name'', ''orders_count'',
            ''state'', ''total_spent'', ''last_order_id'', ''note'', ''tags'', ''email'', ''phone'',
            ''currency'', ''addresses''] \<and>
         list_all (\<lambda>k. own_prop row k = get_prop_opt c k)
           [''id'', ''created_at'', ''updated_at'', ''first_name'', ''last_name'', ''orders_count'',
            ''state'', ''total_spent'', ''last_order_id'', ''note'', ''tags'', ''email'', ''phone'',
            ''currency''] \<and>
         (\<exists>a. formatAddresses (get_prop_opt c ''addresses'') = Inr a \<and> own_prop row ''addresses'' = JStr a)"
proof -
  from assms obtain c_id a where
    i: "get_prop c ''id'' = Inr c_id" and
    f: "formatAddresses (get_prop_opt c ''addresses'') = Inr a" and
    r: "row = [(''id'', c_id),
                    (''created_at'', get_prop_opt c ''created_at''),
                    (''updated_at'', get_prop_opt c ''updated_at''),
                    (''first_name'', get_prop_opt c ''first_name''),
                    (''last_name'', get_prop_opt c ''last_name''),
                    (''orders_count'', get_prop_opt c ''orders_count''),
                    (''state'', get_prop_opt c ''state''),
                    (''total_spent'', get_prop_opt c ''total_spent''),
                    (''last_order_id'', get_prop_opt c ''last_order_id''),
                    (''note'', get_prop_opt c ''note''),
                    (''tags'', get_prop_opt c ''tags''),
                    (''email'', get_prop_opt c ''email''),
                    (''phone'', get_prop_opt c ''phone''),
                    (''currency'', get_prop_opt c ''currency''),
                    (''addresses'', JStr a)]"
    by (auto simp: customers_row_def split: sum.splits)
  from i have "c_id = get_prop_opt c ''id''" by (rule get_prop_Inr)
  with r f show ?thesis
    by (simp add: own_prop_def)
qed

lemma customers_success:
  assumes "shop_param req \<noteq> []" "truthy (TOKENS_get T (QStr (shop_param req)))"
    and "js_toString (TOKENS_get T (QStr (shop_param req))) = Inr header"
    and "response_ok st" "customers_of (json_or_empty parsed) = Inr cs"
    and "map_err customers_row cs = Inr rows"
  shows "customers_handler T req (FetchResponse st parsed) =
           \<lparr>effects = [Fetch (customers_request (shop_param req) (first_param req) header)],
            reply = SendJson 200 (JObj [(''customers'', JArr (map JObj rows))])\<rparr>"
  using assms by (simp add: customers_handler_def Let_def)

lemma customers_csv_success:
  assumes "shop_param req \<noteq> []" "truthy (TOKENS_get T (QStr (shop_param req)))"
    and "js_toString (TOKENS_get T (QStr (shop_param req))) = Inr header"
    and "response_ok st" "customers_of (json_or_empty parsed) = Inr cs"
    and "map_err customers_csv_row cs = Inr rows" "toCSV rows = Inr csv"
  shows "customers_csv_handler T req (FetchResponse st parsed) =
           \<lparr>effects =
              [Fetch (customers_request (shop_param req) (first_param req) header),
               SetHeader ''Content-Type'' ''text/csv'',
               SetHeader ''Content-Disposition''
                 (''attachment; filename='' @ [CHR 0x22] @ ''customers-'' @ shop_param req @ ''.csv'' @ [CHR 0x22])],
            reply = Send 200 csv\<rparr>"
  using assms by (simp add: customers_csv_handler_def Let_def)

lemma map_err_rows_agree: "map_err customers_row cs = map_err customers_csv_row cs"
proof -
  have "customers_row = customers_csv_row"
    by (rule ext) (rule customers_rows_agree)
  then show ?thesis by simp
qed

lemma example_row_eval: "customers_row example_customer = Inr example_row"
  by code_simp

lemma example_csv_eval: "toCSV [example_row] = Inr example_csv"
  by code_simp

lemma example_customers_shop: "shop_param example_customers_request = ''b.myshopify.com''"
  by (simp add: example_customers_request_def shop_param_def lookup_def q_truthy_def q_template_def
        trim_example)

lemma collect_all_Inr:
  "(\<And>x. x \<in> set xs \<Longrightarrow> f x = Inr (g x)) \<Longrightarrow> map_err f xs = Inr (map g xs)"
  by (induction xs) (simp_all add: map_err_def)

lemma collect_some_Inl:
  "x \<in> set xs \<Longrightarrow> f x = Inl e \<Longrightarrow> \<exists>e'. map_err f xs = Inl e'"
  by (induction xs) (auto simp: map_err_def split: sum.splits)

lemma doubled_foldr:
  "concat (map (\<lambda>c. if c = CHR 0x22 then [CHR 0x22, CHR 0x22] else [c]) s) @ acc =
   foldr (\<lambda>c acc. if c = CHR 0x22 then CHR 0x22 # CHR 0x22 # acc else c # acc) s acc"
  by (induction s) simp_all

lemma needs_quote:
  "(CHR '','' \<in> set s \<or> CHR 0x22 \<in> set s \<or> CHR 0x0A \<in> set s) =
   list_ex (\<lambda>c. c = CHR '','' \<or> c = CHR 0x22 \<or> c = CHR 0x0A) s"
  by (induction s) auto

lemma csv_escape_spec: "convertible v \<Longrightarrow> csv_escape v = Inr (csv_field_spec v)"
  by (cases "js_toString v")
     (simp_all add: convertible_def csv_escape_def csv_field_spec_def needs_quote Let_def doubled_foldr)

lemma csv_escape_throws: "\<not> convertible v \<Longrightarrow> \<exists>e. csv_escape v = Inl e"
  by (cases "js_toString v"; cases v) (simp_all add: convertible_def csv_escape_def)

lemma toCSV_returns:
  assumes "list_all (\<lambda>row. list_all (\<lambda>h. convertible (own_prop row h)) (map fst (hd rows))) rows"
  shows "toCSV rows = Inr (toCSV_spec rows)"
proof (cases rows)
  case Nil
  then show ?thesis by (simp add: toCSV_def toCSV_spec_def)
next
  case (Cons r rs)
  define headers where "headers = map fst r"
  have cells: "map_err (\<lambda>h. csv_escape (own_prop row h)) headers =
                 Inr (map (\<lambda>h. csv_field_spec (own_prop row h)) headers)"
    if "row \<in> set rows" for row
  proof (rule collect_all_Inr)
    fix h assume "h \<in> set headers"
    with assms that Cons have "convertible (own_prop row h)"
      by (auto simp: list_all_iff headers_def)
    then show "csv_escape (own_prop row h) = Inr (csv_field_spec (own_prop row h))"
      by (rule csv_escape_spec)
  qed
  have lines: "map_err (\<lambda>row. case map_err (\<lambda>h. csv_escape (own_prop row h)) headers of
                              Inl err \<Rightarrow> Inl err
                            | Inr cells \<Rightarrow> Inr (join '','' cells)) rows =
               Inr (map (\<lambda>row. join '','' (map (\<lambda>h. csv_field_spec (own_prop row h)) headers)) rows)"
    by (rule collect_all_Inr) (simp add: cells)
  show ?thesis
    using lines unfolding headers_def Cons
    by (simp add: toCSV_def toCSV_spec_def Let_def)
qed

lemma toCSV_throws:
  assumes "\<not> list_all (\<lambda>row. list_all (\<lambda>h. convertible (own_prop row h)) (map fst (hd rows))) rows"
  shows "\<exists>e. toCSV rows = Inl e"
proof (cases rows)
  case Nil
  with assms show ?thesis by simp
next
  case (Cons r rs)
  define headers where "headers = map fst r"
  from assms Cons obtain row h where
    rh: "row \<in> set rows" "h \<in> set headers" "\<not> convertible (own_prop row h)"
    by (auto simp: list_all_iff headers_def)
  from csv_escape_throws [OF rh(3)] obtain e where "csv_escape (own_prop row h) = Inl e" ..
  with collect_some_Inl [OF rh(2), of "\<lambda>h. csv_escape (own_prop row h)" e]
  obtain e' where "map_err (\<lambda>h. csv_escape (own_prop row h)) headers = Inl e'"
    by blast
  then have "(case map_err (\<lambda>h. csv_escape (own_prop row h)) headers of
                Inl err \<Rightarrow> Inl err
              | Inr cells \<Rightarrow> Inr (join '','' cells)) = (Inl e' :: js_error + string)"
    by simp
  with collect_some_Inl [OF rh(1),
      of "\<lambda>row. case map_err (\<lambda>h. csv_escape (own_prop row h)) headers of
                   Inl err \<Rightarrow> Inl err
                 | Inr cells \<Rightarrow> Inr (join '','' cells)" e']
  obtain e'' where "map_err (\<lambda>row. case map_err (\<lambda>h. csv_escape (own_prop row h)) headers of
                   Inl err \<Rightarrow> Inl err
                 | Inr cells \<Rightarrow> Inr (join '','' cells)) rows = (Inl e'' :: js_error + string list)"
    by blast
  then show ?thesis
    unfolding headers_def Cons by (simp add: toCSV_def Let_def)
qed

lemma csv_field_spec_cases:
  "csv_field_spec JNull = [] \<and> csv_field_spec JUndefined = [] \<and>
   (\<not> list_ex (\<lambda>c. c = CHR '','' \<or> c = CHR 0x22 \<or> c = CHR 0x0A) s \<longrightarrow> csv_field_spec (JStr s) = s) \<and>
   (list_ex (\<lambda>c. c = CHR '','' \<or> c = CHR 0x22 \<or> c = CHR 0x0A) s \<longrightarrow>
      csv_field_spec (JStr s) =
        CHR 0x22 # foldr (\<lambda>c acc. if c = CHR 0x22 then CHR 0x22 # CHR 0x22 # acc else c # acc) s [CHR 0x22])"
  by (simp add: csv_field_spec_def)

lemma example_convertible:
  "list_all (\<lambda>row. list_all (\<lambda>h. convertible (own_prop row h)) (map fst (hd [example_row]))) [example_row]"
  by code_simp

lemma example_csv_spec: "toCSV_spec [example_row] = example_csv"
  by code_simp
























lemma golden_hex:
  "hex_encode
     [106, 150, 55, 7, 135, 11, 2, 10, 198, 206, 164, 230, 126, 183, 209, 74, 159, 25, 120, 36,
     22, 243, 139, 182, 51, 58, 110, 175, 107, 228, 83, 195] =
     ''6a963707870b020ac6cea4e67eb7d14a9f19782416f38bb6333a6eaf6be453c3''"
  by code_simp















section \<open>The claims\<close>

text \<open>
  Claim C5. In both callback handlers the state check is never skipped: whenever the
  values do not validate (the cookie is absent or empty, the callback state is absent or
  empty, one of them is not a string, or the two strings differ) the handler answers
  with status 400, performs no effect and leaves \<open>TOKENS\<close> as it was; and a cookie
  and a state that are the same non-empty string are never answered with the
  invalid-state reply.
\<close>

theorem callback_state_validation:
  "(\<not> validate_spec (own_prop (cookies req) ''shopify_oauth_state'') (lookup (query req) ''state'') \<longrightarrow>
      (\<exists>msg. auth_callback_handler env T req world = (T, \<lparr>effects = [], reply = Send 400 msg\<rparr>)) \<and>
      (\<exists>msg. server_auth_callback_handler fo env T req world = (T, \<lparr>effects = [], reply = Send 400 msg\<rparr>))) \<and>
   (validate_spec (own_prop (cookies req) ''shopify_oauth_state'') (lookup (query req) ''state'') \<longrightarrow>
      reply (snd (auth_callback_handler env T req world)) \<noteq> Send 400 ''Invalid state. Try /auth again.'' \<and>
      reply (snd (server_auth_callback_handler fo env T req world)) \<noteq> Send 400 ''Invalid state. Try /auth again.'')"
  using callback_rejects_invalid_state [of req env T world]
        server_callback_rejects_invalid_state [of req fo env T world]
        callback_accepts_valid_state [of req _ env T world]
        server_callback_accepts_valid_state [of req _ fo env T world]
  unfolding validate_spec_iff by blast


theorem callback_state_validation_witness:
  "\<not> validate_spec
       (own_prop (cookies \<lparr>query = [(''shop'', QStr ''a.myshopify.com''), (''code'', QStr ''c0de''),
                                     (''state'', QStr ''abc'')],
                            cookies = [(''shopify_oauth_state'', JStr ''abd'')]\<rparr>)
          ''shopify_oauth_state'')
       (lookup (query \<lparr>query = [(''shop'', QStr ''a.myshopify.com''), (''code'', QStr ''c0de''),
                                   (''state'', QStr ''abc'')],
                          cookies = [(''shopify_oauth_state'', JStr ''abd'')]\<rparr>)
          ''state'') \<and>
   auth_callback_handler
     \<lparr>SHOPIFY_API_KEY = Some ''key'', SHOPIFY_API_SECRET = Some ''shhh'',
      SHOPIFY_SCOPES = Some ''read_customers'', SHOPIFY_APP_URL = Some ''https://app.example.com''\<rparr>
     []
     \<lparr>query = [(''shop'', QStr ''a.myshopify.com''), (''code'', QStr ''c0de''), (''state'', QStr ''abc'')],
      cookies = [(''shopify_oauth_state'', JStr ''abd'')]\<rparr>
     (FetchResponse 200 (Inr (JObj [(''access_token'', JStr ''tok'')]))) =
   ([], \<lparr>effects = [], reply = Send 400 ''Invalid state. Try /auth again.''\<rparr>)"
  using callback_state_validation
    [of "\<lparr>query = [(''shop'', QStr ''a.myshopify.com''), (''code'', QStr ''c0de''), (''state'', QStr ''abc'')],
          cookies = [(''shopify_oauth_state'', JStr ''abd'')]\<rparr>"
        "\<lparr>SHOPIFY_API_KEY = Some ''key'', SHOPIFY_API_SECRET = Some ''shhh'',
          SHOPIFY_SCOPES = Some ''read_customers'', SHOPIFY_APP_URL = Some ''https://app.example.com''\<rparr>"
        "[]" "FetchResponse 200 (Inr (JObj [(''access_token'', JStr ''tok'')]))"
        "\<lambda>v. Inl (TypeError [])"]
  by (simp add: validate_spec_def own_prop_def lookup_def auth_callback_handler_def)



text \<open>
  Claim C6. In every state a run of either application reaches from the empty map, each
  key of \<open>TOKENS\<close> is a tenant for which an earlier callback issued the \<open>POST\<close> to that
  tenant's token endpoint and received a success status. A callback whose exchange does
  not end in a parsed success response (the request throws, the body is not JSON, or the
  status is outside 200 to 299) leaves \<open>TOKENS\<close> as it was.
\<close>

theorem credentials_only_after_exchange:
  "fst ` set (run env [] evs) \<subseteq> set (exchanged env [] evs) \<and>
   fst ` set (server_run fo env [] sevs) \<subseteq> set (server_exchanged fo env [] sevs) \<and>
   (\<not> (\<exists>st tokenJson. world = FetchResponse st (Inr tokenJson) \<and> response_ok st) \<longrightarrow>
      fst (auth_callback_handler env T req world) = T \<and>
      fst (server_auth_callback_handler fo env T req world) = T)"
  using run_keys [of env "[]" evs] server_run_keys [of fo env "[]" sevs]
    failed_exchange_keeps_store [of world env T req fo]
  by simp


theorem credentials_only_after_exchange_witness:
  "run example_env []
     [GetAuthCallback example_callback (FetchThrows (TypeError ''fetch failed'')),
      GetAuthCallback example_callback
        (FetchResponse 200 (Inr (JObj [(''access_token'', JStr ''shpat_2''), (''scope'', JStr ''read_customers'')])))] =
     [(QStr ''a.myshopify.com'', JStr ''shpat_2'')] \<and>
   exchanged example_env []
     [GetAuthCallback example_callback (FetchThrows (TypeError ''fetch failed'')),
      GetAuthCallback example_callback
        (FetchResponse 200 (Inr (JObj [(''access_token'', JStr ''shpat_2''), (''scope'', JStr ''read_customers'')])))] =
     [QStr ''a.myshopify.com''] \<and>
   fst (auth_callback_handler example_env [] example_callback (FetchThrows (TypeError ''fetch failed''))) = []"
  using credentials_only_after_exchange
    [of example_env
        "[GetAuthCallback example_callback (FetchThrows (TypeError ''fetch failed'')),
          GetAuthCallback example_callback
            (FetchResponse 200 (Inr (JObj [(''access_token'', JStr ''shpat_2''), (''scope'', JStr ''read_customers'')])))]"
        "\<lambda>v. Inl (TypeError [])" "[]" "FetchThrows (TypeError ''fetch failed'')" "[]" example_callback]
  by (simp add: example_callback_runs exchange_def response_ok_def own_prop_def TOKENS_set_def
        exchange_completed_def example_params posts_to_token_endpoint_def token_request_def)









text \<open>
  Claim C9. The two object literals are the same projection: for every upstream record
  they give the same row or throw the same error. A row has the fifteen keys in the
  order of the literal; the first fourteen hold the record's fields of the same name and
  \<open>addresses\<close> holds \<open>formatAddresses\<close> of the record's addresses. For one successful
  upstream answer, \<open>/customers\<close> sends exactly the rows that \<open>/customers.csv\<close> hands to
  \<open>toCSV\<close>.
\<close>

theorem endpoints_project_identically:
  "customers_row c = customers_csv_row c \<and>
   (customers_row c = Inr row \<longrightarrow>
      map fst row =
        [''id'', ''created_at'', ''updated_at'', ''first_name'', ''last_name'', ''orders_count'',
         ''state'', ''total_spent'', ''last_order_id'', ''note'', ''tags'', ''email'', ''phone'',
         ''currency'', ''addresses''] \<and>
      list_all (\<lambda>k. own_prop row k = get_prop_opt c k)
        [''id'', ''created_at'', ''updated_at'', ''first_name'', ''last_name'', ''orders_count'',
         ''state'', ''total_spent'', ''last_order_id'', ''note'', ''tags'', ''email'', ''phone'',
         ''currency''] \<and>
      (\<exists>a. formatAddresses (get_prop_opt c ''addresses'') = Inr a \<and> own_prop row ''addresses'' = JStr a)) \<and>
   (shop_param req \<noteq> [] \<and> truthy (TOKENS_get T (QStr (shop_param req))) \<and>
    js_toString (TOKENS_get T (QStr (shop_param req))) = Inr header \<and>
    response_ok st \<and> customers_of (json_or_empty parsed) = Inr cs \<and>
    map_err customers_row cs = Inr rows \<longrightarrow>
      map_err customers_csv_row cs = Inr rows \<and>
      reply (customers_handler T req (FetchResponse st parsed)) =
        SendJson 200 (JObj [(''customers'', JArr (map JObj rows))]) \<and>
      reply (customers_csv_handler T req (FetchResponse st parsed)) =
        (case toCSV rows of Inl err \<Rightarrow> Raised err | Inr csv \<Rightarrow> Send 200 csv))"
proof -
  have p1: "customers_row c = customers_csv_row c"
    by (rule customers_rows_agree)
  have p2: "customers_row c = Inr row \<longrightarrow>
      map fst row =
        [''id'', ''created_at'', ''updated_at'', ''first_name'', ''last_name'', ''orders_count'',
         ''state'', ''total_spent'', ''last_order_id'', ''note'', ''tags'', ''email'', ''phone'',
         ''currency'', ''addresses''] \<and>
      list_all (\<lambda>k. own_prop row k = get_prop_opt c k)
        [''id'', ''created_at'', ''updated_at'', ''first_name'', ''last_name'', ''orders_count'',
         ''state'', ''total_spent'', ''last_order_id'', ''note'', ''tags'', ''email'', ''phone'',
         ''currency''] \<and>
      (\<exists>a. formatAddresses (get_prop_opt c ''addresses'') = Inr a \<and> own_prop row ''addresses'' = JStr a)"
    by (rule impI) (rule customers_row_fields)
  have p3: "shop_param req \<noteq> [] \<and> truthy (TOKENS_get T (QStr (shop_param req))) \<and>
    js_toString (TOKENS_get T (QStr (shop_param req))) = Inr header \<and>
    response_ok st \<and> customers_of (json_or_empty parsed) = Inr cs \<and>
    map_err customers_row cs = Inr rows \<longrightarrow>
      map_err customers_csv_row cs = Inr rows \<and>
      reply (customers_handler T req (FetchResponse st parsed)) =
        SendJson 200 (JObj [(''customers'', JArr (map JObj rows))]) \<and>
      reply (customers_csv_handler T req (FetchResponse st parsed)) =
        (case toCSV rows of Inl err \<Rightarrow> Raised err | Inr csv \<Rightarrow> Send 200 csv)"
  proof (rule impI)
    assume h: "shop_param req \<noteq> [] \<and> truthy (TOKENS_get T (QStr (shop_param req))) \<and>
      js_toString (TOKENS_get T (QStr (shop_param req))) = Inr header \<and>
      response_ok st \<and> customers_of (json_or_empty parsed) = Inr cs \<and>
      map_err customers_row cs = Inr rows"
    then have c: "map_err customers_csv_row cs = Inr rows"
      by (simp add: map_err_rows_agree)
    from h have j: "reply (customers_handler T req (FetchResponse st parsed)) =
        SendJson 200 (JObj [(''customers'', JArr (map JObj rows))])"
      by (simp add: customers_success)
    from h c have v: "reply (customers_csv_handler T req (FetchResponse st parsed)) =
        (case toCSV rows of Inl err \<Rightarrow> Raised err | Inr csv \<Rightarrow> Send 200 csv)"
      by (simp add: customers_csv_handler_def Let_def split: sum.splits)
    from c j v show "map_err customers_csv_row cs = Inr rows \<and>
      reply (customers_handler T req (FetchResponse st parsed)) =
        SendJson 200 (JObj [(''customers'', JArr (map JObj rows))]) \<and>
      reply (customers_csv_handler T req (FetchResponse st parsed)) =
        (case toCSV rows of Inl err \<Rightarrow> Raised err | Inr csv \<Rightarrow> Send 200 csv)"
      by (intro conjI)
  qed
  show ?thesis
    by (rule conjI [OF p1 conjI [OF p2 p3]])
qed

theorem endpoints_project_identically_witness:
  "shop_param example_customers_request = ''b.myshopify.com'' \<and>
   customers_row example_customer = Inr example_row \<and>
   customers_csv_row example_customer = Inr example_row \<and>
   reply (customers_handler [(QStr ''b.myshopify.com'', JStr ''shpat_b'')] example_customers_request
            (FetchResponse 200 (Inr (JObj [(''customers'', JArr [example_customer])])))) =
     SendJson 200 (JObj [(''customers'', JArr [JObj example_row])]) \<and>
   reply (customers_csv_handler [(QStr ''b.myshopify.com'', JStr ''shpat_b'')] example_customers_request
            (FetchResponse 200 (Inr (JObj [(''customers'', JArr [example_customer])])))) =
     Send 200 example_csv"
  using endpoints_project_identically
    [of example_customer example_row example_customers_request
        "[(QStr ''b.myshopify.com'', JStr ''shpat_b'')]" "''shpat_b''" 200
        "Inr (JObj [(''customers'', JArr [example_customer])])" "[example_customer]" "[example_row]"]
    example_row_eval example_csv_eval example_customers_shop
  by (simp add: TOKENS_get_def response_ok_def customers_of_def json_or_empty_def own_prop_def
        map_err_def)

text \<open>
  Claim C10. \<open>toCSV\<close> of no rows is the empty string. For rows whose fields all
  convert to strings it returns the text the claim describes (\<open>toCSV_spec\<close>): the
  header line of the first row's keys, then one line per row with one field per header
  in header order, fields escaped as described. It throws exactly when \<open>String\<close> throws
  on a field, which only an object with an own \<open>toString\<close> property causes.
\<close>

theorem toCSV_meets_description:
  "toCSV [] = Inr [] \<and>
   (list_all (\<lambda>row. list_all (\<lambda>h. convertible (own_prop row h)) (map fst (hd rows))) rows \<longrightarrow>
      toCSV rows = Inr (toCSV_spec rows)) \<and>
   (\<not> list_all (\<lambda>row. list_all (\<lambda>h. convertible (own_prop row h)) (map fst (hd rows))) rows \<longrightarrow>
      (\<exists>e. toCSV rows = Inl e))"
proof -
  have t1: "toCSV [] = Inr []"
    by (simp add: toCSV_def)
  have t2: "list_all (\<lambda>row. list_all (\<lambda>h. convertible (own_prop row h)) (map fst (hd rows))) rows \<longrightarrow>
      toCSV rows = Inr (toCSV_spec rows)"
    by (rule impI) (rule toCSV_returns)
  have t3: "\<not> list_all (\<lambda>row. list_all (\<lambda>h. convertible (own_prop row h)) (map fst (hd rows))) rows \<longrightarrow>
      (\<exists>e. toCSV rows = Inl e)"
    by (rule impI) (rule toCSV_throws)
  show ?thesis
    by (rule conjI [OF t1 conjI [OF t2 t3]])
qed


theorem toCSV_meets_description_witness:
  "list_all (\<lambda>row. list_all (\<lambda>h. convertible (own_prop row h)) (map fst (hd [example_row]))) [example_row] \<and>
   toCSV [example_row] = Inr example_csv \<and> toCSV_spec [example_row] = example_csv"
  using toCSV_meets_description [of "[example_row]"] example_convertible example_csv_spec
  by simp






end
